theory Spec2Isabelle
  imports Complex_Main "HOL-Library.Multiset" "HOL-Library.Char_ord" "HOL-Library.List_Lexorder"
begin

section \<open>Numbers and constants\<close>

text \<open>
  The program computes with JavaScript numbers. The embedding takes every coordinate and
  size to be a real number: finite, and with exact arithmetic. Where the source's control
  flow depends on a value that is not a real (\<open>NaN\<close> after \<open>0 / 0\<close>, \<open>undefined\<close>), the
  case is written out in the definition that meets it. Grid counts (\<open>rows\<close>, \<open>cols\<close>) are
  integers.
\<close>

definition OVERLAP_THICKNESS :: real where
  "OVERLAP_THICKNESS = 1 / 100"

definition MERGE_VERTICES_TOLERANCE :: real where
  "MERGE_VERTICES_TOLERANCE = 1 / 1000"

definition MIN_TRIANGLE_AREA :: real where
  "MIN_TRIANGLE_AREA = 1 / 1000"

section \<open>Triangle buffers\<close>

type_synonym vec3 = "real \<times> real \<times> real"

definition vx :: "vec3 \<Rightarrow> real" where
  "vx p = fst p"

definition vy :: "vec3 \<Rightarrow> real" where
  "vy p = fst (snd p)"

definition vz :: "vec3 \<Rightarrow> real" where
  "vz p = snd (snd p)"

text \<open>
  A \<open>THREE.BufferGeometry\<close> as far as the program reads it: the position attribute (one
  entry per vertex), the optional index buffer, and whether a normal attribute is present
  (the values of normals, uvs and tangents are never read by the code under study).
\<close>

record BufferGeometry =
  position :: "vec3 list"
  index :: "nat list option"
  hasNormal :: bool

text \<open>
  The axis-aligned box of the position buffer. For an empty buffer three.js leaves the
  box empty (minimum \<open>+\<infinity>\<close>, maximum \<open>-\<infinity>\<close>): here \<open>None\<close>.
\<close>

definition boundingBox :: "BufferGeometry \<Rightarrow> (vec3 \<times> vec3) option" where
  "boundingBox g =
     (case position g of
        [] \<Rightarrow> None
      | p # ps \<Rightarrow>
          Some (foldl (\<lambda>a q. (min (vx a) (vx q), min (vy a) (vy q), min (vz a) (vz q))) p ps,
                foldl (\<lambda>a q. (max (vx a) (vx q), max (vy a) (vy q), max (vz a) (vz q))) p ps))"

text \<open>
  Reading \<open>g.boundingBox!.min\<close> and \<open>g.boundingBox!.max\<close>. On an empty buffer the model
  reads the origin where three.js reads an infinite corner; the theorems that depend on
  such a value assume the buffer is not empty.
\<close>

definition bbMin :: "BufferGeometry \<Rightarrow> vec3" where
  "bbMin g = (case boundingBox g of None \<Rightarrow> (0, 0, 0) | Some b \<Rightarrow> fst b)"

definition bbMax :: "BufferGeometry \<Rightarrow> vec3" where
  "bbMax g = (case boundingBox g of None \<Rightarrow> (0, 0, 0) | Some b \<Rightarrow> snd b)"

definition translate :: "real \<Rightarrow> real \<Rightarrow> real \<Rightarrow> BufferGeometry \<Rightarrow> BufferGeometry" where
  "translate tx ty tz g =
     g\<lparr>position := map (\<lambda>p. (vx p + tx, vy p + ty, vz p + tz)) (position g)\<rparr>"

definition scale :: "real \<Rightarrow> real \<Rightarrow> real \<Rightarrow> BufferGeometry \<Rightarrow> BufferGeometry" where
  "scale sx sy sz g =
     g\<lparr>position := map (\<lambda>p. (vx p * sx, vy p * sy, vz p * sz)) (position g)\<rparr>"

definition rotateZ :: "real \<Rightarrow> BufferGeometry \<Rightarrow> BufferGeometry" where
  "rotateZ angle g =
     g\<lparr>position := map (\<lambda>p. (cos angle * vx p - sin angle * vy p,
                                 sin angle * vx p + cos angle * vy p,
                                 vz p)) (position g)\<rparr>"

definition computeVertexNormals :: "BufferGeometry \<Rightarrow> BufferGeometry" where
  "computeVertexNormals g = g\<lparr>hasNormal := True\<rparr>"

definition deleteNormal :: "BufferGeometry \<Rightarrow> BufferGeometry" where
  "deleteNormal g = g\<lparr>hasNormal := False\<rparr>"

text \<open>
  \<open>trimBufferGeometryToOrigin\<close>: translate by minus the box minimum. On an empty buffer
  the translation moves nothing.
\<close>

definition trimBufferGeometryToOrigin :: "BufferGeometry \<Rightarrow> BufferGeometry" where
  "trimBufferGeometryToOrigin g =
     (case boundingBox g of
        None \<Rightarrow> g
      | Some b \<Rightarrow> translate (- vx (fst b)) (- vy (fst b)) (- vz (fst b)) g)"

definition rotateZWithTrim :: "real \<Rightarrow> BufferGeometry \<Rightarrow> BufferGeometry" where
  "rotateZWithTrim angle g = trimBufferGeometryToOrigin (rotateZ angle g)"

datatype axis = AxisX | AxisY | AxisZ

text \<open>
  \<open>flipGeometryWithTrim\<close>: negate one coordinate, reverse the index buffer (an absent
  index becomes the empty one), recompute normals, trim.
\<close>

definition flipGeometryWithTrim :: "axis \<Rightarrow> BufferGeometry \<Rightarrow> BufferGeometry" where
  "flipGeometryWithTrim ax g =
     trimBufferGeometryToOrigin (computeVertexNormals
       (g\<lparr>position :=
            map (\<lambda>p. case ax of
                        AxisX \<Rightarrow> (- vx p, vy p, vz p)
                      | AxisY \<Rightarrow> (vx p, - vy p, vz p)
                      | AxisZ \<Rightarrow> (vx p, vy p, - vz p)) (position g),
          index := Some (rev (case index g of None \<Rightarrow> [] | Some ix \<Rightarrow> ix))\<rparr>))"

section \<open>Sub-parts and grid result\<close>

record Subparts =
  bottomCorner2W :: BufferGeometry
  topCorner2W :: BufferGeometry
  bottomCorner1WRightNear :: BufferGeometry
  bottomCorner1WLeftFar :: BufferGeometry
  topCorner1W :: BufferGeometry
  bottomCorner0W :: BufferGeometry
  sideTopEdges :: BufferGeometry
  sideBottomEdges :: BufferGeometry
  sideEdge2W :: BufferGeometry
  sideWall :: BufferGeometry
  bottomFloor :: BufferGeometry
  bottomEdge0W :: BufferGeometry

record GridResult =
  geometry :: BufferGeometry
  sizeX :: real
  sizeY :: real
  sizeZ :: real

text \<open>
  The sub-part a placed piece was cloned from. The label is not in the source: it records,
  at each \<open>geometries.push\<close>, the field of \<open>subparts\<close> the pushed clone started from, so
  that pieces can be counted by kind.
\<close>

datatype part =
    BottomCorner2W | TopCorner2W | BottomCorner1WRightNear | BottomCorner1WLeftFar
  | TopCorner1W | BottomCorner0W | SideTopEdges | SideBottomEdges | SideEdge2W
  | SideWall | BottomFloor | BottomEdge0W

section \<open>External collaborators\<close>

text \<open>
  The cutter handed to the boolean engine: a \<open>THREE.BoxGeometry\<close> of the given size,
  translated to the given centre.
\<close>

record BoxMesh =
  boxSize :: vec3
  boxCentre :: vec3

text \<open>
  The functions of three.js and three-bvh-csg the program calls, as parameters of the model:
  \<^item> \<open>weld tolerance g\<close>: the position and index buffers \<open>BufferGeometryUtils.mergeVertices\<close>
    computes (its result is always indexed);
  \<^item> \<open>csgIntersection\<close>, \<open>csgAddition\<close>: \<open>Evaluator.evaluate\<close> with \<open>INTERSECTION\<close> and
    \<open>ADDITION\<close>;
  \<^item> \<open>mergeGeometries\<close>: \<open>BufferGeometryUtils.mergeGeometries\<close>, which may return null;
  \<^item> \<open>nanDefect\<close>: whether a buffer holds a \<open>NaN\<close> coordinate or has a \<open>NaN\<close> bounding
    sphere radius, which real coordinates cannot express;
  \<^item> \<open>stlParse\<close>, \<open>stlExport\<close>: \<open>STLLoader.parse\<close> and the binary \<open>STLExporter.parse\<close>.
\<close>

record ext =
  weld :: "real \<Rightarrow> BufferGeometry \<Rightarrow> vec3 list \<times> nat list"
  csgIntersection :: "BufferGeometry \<Rightarrow> BoxMesh \<Rightarrow> BufferGeometry"
  csgAddition :: "BufferGeometry \<Rightarrow> BufferGeometry \<Rightarrow> BufferGeometry"
  mergeGeometries :: "BufferGeometry list \<Rightarrow> BufferGeometry option"
  nanDefect :: "BufferGeometry \<Rightarrow> bool"
  stlParse :: "string \<Rightarrow> BufferGeometry"
  stlExport :: "BufferGeometry \<Rightarrow> string"

definition mergeVertices :: "ext \<Rightarrow> real \<Rightarrow> BufferGeometry \<Rightarrow> BufferGeometry" where
  "mergeVertices e tolerance g =
     g\<lparr>position := fst (weld e tolerance g), index := Some (snd (weld e tolerance g))\<rparr>"

datatype error =
    InvalidGridSize
  | MeshValidation
  | NoGeometriesToMerge
  | NoGeometryToUnion
  | FailedToMerge

text \<open>
  \<open>validateGeometry\<close> throws on a missing position attribute (excluded by the record),
  on a \<open>NaN\<close> coordinate and on a \<open>NaN\<close> bounding sphere radius.
\<close>

definition validateGeometry :: "ext \<Rightarrow> BufferGeometry \<Rightarrow> error + unit" where
  "validateGeometry e g = (if nanDefect e g then Inl MeshValidation else Inr ())"

fun validateAll :: "ext \<Rightarrow> BufferGeometry list \<Rightarrow> error + unit" where
  "validateAll e [] = Inr ()"
| "validateAll e (g # gs) =
     (case validateGeometry e g of Inl err \<Rightarrow> Inl err | Inr _ \<Rightarrow> validateAll e gs)"

section \<open>Mesh repair\<close>

text \<open>The triangles of an index buffer, as the loops \<open>for (i = 0; i < length - 2; i += 3)\<close> read them.\<close>

fun faces :: "nat list \<Rightarrow> (nat \<times> nat \<times> nat) list" where
  "faces (a # b # c # rest) = (a, b, c) # faces rest"
| "faces _ = []"

definition flatten :: "(nat \<times> nat \<times> nat) list \<Rightarrow> nat list" where
  "flatten fs = concat (map (\<lambda>f. case f of (a, b, c) \<Rightarrow> [a, b, c]) fs)"

text \<open>The decimal string of an index, as \<open>String(n)\<close> gives it.\<close>

fun toString :: "nat \<Rightarrow> string" where
  "toString n =
     (if n < 10 then [char_of (48 + n)]
      else toString (n div 10) @ [char_of (48 + n mod 10)])"

declare toString.simps [simp del]

fun join :: "string \<Rightarrow> string list \<Rightarrow> string" where
  "join sep [] = []"
| "join sep [s] = s"
| "join sep (s # t # ss) = s @ sep @ join sep (t # ss)"

text \<open>
  \<open>[a, b, c].sort().join(',')\<close>: the default sort of JavaScript orders the elements by
  their string forms.
\<close>

definition faceKey :: "nat \<times> nat \<times> nat \<Rightarrow> string" where
  "faceKey f = (case f of (a, b, c) \<Rightarrow> join '','' (map toString (sort_key toString [a, b, c])))"

fun uniqueFacesLoop :: "string set \<Rightarrow> (nat \<times> nat \<times> nat) list \<Rightarrow> (nat \<times> nat \<times> nat) list" where
  "uniqueFacesLoop uniqueFaces [] = []"
| "uniqueFacesLoop uniqueFaces (f # fs) =
     (if faceKey f \<in> uniqueFaces then uniqueFacesLoop uniqueFaces fs
      else f # uniqueFacesLoop (insert (faceKey f) uniqueFaces) fs)"

definition removeDuplicateFaces :: "BufferGeometry \<Rightarrow> BufferGeometry" where
  "removeDuplicateFaces g =
     (case index g of
        None \<Rightarrow> g
      | Some indices \<Rightarrow> g\<lparr>index := Some (flatten (uniqueFacesLoop {} (faces indices)))\<rparr>)"

definition triangleArea ::
  "real \<Rightarrow> real \<Rightarrow> real \<Rightarrow> real \<Rightarrow> real \<Rightarrow> real \<Rightarrow> real \<Rightarrow> real \<Rightarrow> real \<Rightarrow> real" where
  "triangleArea ax ay az bx by bz cx cy cz =
     (let ABx = bx - ax; ABy = by - ay; ABz = bz - az;
          ACx = cx - ax; ACy = cy - ay; ACz = cz - az;
          crossX = ABy * ACz - ABz * ACy;
          crossY = ABz * ACx - ABx * ACz;
          crossZ = ABx * ACy - ABy * ACx
      in 0.5 * sqrt (crossX * crossX + crossY * crossY + crossZ * crossZ))"

text \<open>
  The test \<open>area > MIN_TRIANGLE_AREA\<close>. An index beyond the position buffer reads
  \<open>undefined\<close>, the area is \<open>NaN\<close> and the comparison is false.
\<close>

definition keepTriangle :: "vec3 list \<Rightarrow> nat \<times> nat \<times> nat \<Rightarrow> bool" where
  "keepTriangle ps f =
     (case f of (a, b, c) \<Rightarrow>
        a < length ps \<and> b < length ps \<and> c < length ps \<and>
        triangleArea (vx (ps ! a)) (vy (ps ! a)) (vz (ps ! a))
                     (vx (ps ! b)) (vy (ps ! b)) (vz (ps ! b))
                     (vx (ps ! c)) (vy (ps ! c)) (vz (ps ! c)) > MIN_TRIANGLE_AREA)"

text \<open>\<open>usedVertices\<close> is a JavaScript \<open>Set\<close>: it iterates in insertion order.\<close>

definition addUsed :: "nat list \<Rightarrow> nat \<Rightarrow> nat list" where
  "addUsed used v = (if v \<in> set used then used else used @ [v])"

definition oldToNewIndex :: "nat list \<Rightarrow> nat \<Rightarrow> nat" where
  "oldToNewIndex used old = length (takeWhile (\<lambda>v. v \<noteq> old) used)"

definition compactTriangles :: "BufferGeometry \<Rightarrow> vec3 list \<Rightarrow> nat list \<Rightarrow> BufferGeometry" where
  "compactTriangles g positions indices =
     (let newIndices = flatten (filter (keepTriangle positions) (faces indices));
          usedVertices = foldl addUsed [] newIndices
      in computeVertexNormals
           (g\<lparr>position := map (\<lambda>oldIndex. positions ! oldIndex) usedVertices,
              index := Some (map (oldToNewIndex usedVertices) newIndices)\<rparr>))"

text \<open>
  \<open>removeDegenerateTriangles\<close>: an unindexed buffer is first welded with the default
  tolerance of \<open>mergeVertices\<close>.
\<close>

definition removeDegenerateTriangles :: "ext \<Rightarrow> BufferGeometry \<Rightarrow> BufferGeometry" where
  "removeDegenerateTriangles e g =
     (case index g of
        None \<Rightarrow> compactTriangles g (fst (weld e (1 / 10000) g)) (snd (weld e (1 / 10000) g))
      | Some indices \<Rightarrow> compactTriangles g (position g) indices)"

definition repairPass :: "ext \<Rightarrow> BufferGeometry \<Rightarrow> BufferGeometry" where
  "repairPass e output =
     computeVertexNormals
       (mergeVertices e MERGE_VERTICES_TOLERANCE
         (removeDegenerateTriangles e
           (removeDuplicateFaces
             (mergeVertices e MERGE_VERTICES_TOLERANCE (deleteNormal output)))))"

text \<open>
  The \<open>do ... while (true)\<close> loop of \<open>fixNonManifoldGeometry\<close>: it leaves when a pass keeps
  the length of the position array. \<open>None\<close> is a loop that never leaves.
\<close>

partial_function (option) repairLoop :: "ext \<Rightarrow> BufferGeometry \<Rightarrow> BufferGeometry option" where
  "repairLoop e output =
     (if 3 * length (position (repairPass e output)) = 3 * length (position output)
      then Some (repairPass e output)
      else repairLoop e (repairPass e output))"

text \<open>
  \<open>fixNonManifoldGeometry\<close> ends with \<open>return geometry\<close>: the object it was given, whose
  normal attribute the first pass deleted in place. The passes work on fresh objects.
\<close>

definition fixNonManifoldGeometry :: "ext \<Rightarrow> BufferGeometry \<Rightarrow> BufferGeometry option" where
  "fixNonManifoldGeometry e g =
     (case repairLoop e g of None \<Rightarrow> None | Some output \<Rightarrow> Some (deleteNormal g))"

section \<open>Reassembly\<close>

definition containerSizeX :: "GridResult \<Rightarrow> int \<Rightarrow> real" where
  "containerSizeX gridResult cols = sizeX gridResult * of_int cols"

definition containerSizeY :: "GridResult \<Rightarrow> int \<Rightarrow> real" where
  "containerSizeY gridResult rows = sizeY gridResult * of_int rows"

text \<open>
  The number of passes of a loop \<open>for (j = 0; j < Math.round(containerSize / cellSize); j++)\<close>.
  \<open>Math.round\<close> rounds halves up, as \<^const>\<open>round\<close> does. With a cell size of zero the
  container size is zero too, the quotient is \<open>NaN\<close> and \<open>j < NaN\<close> is false.
\<close>

definition xIterations :: "GridResult \<Rightarrow> int \<Rightarrow> nat" where
  "xIterations gridResult cols =
     (if sizeX gridResult = 0 then 0
      else nat (round (containerSizeX gridResult cols / sizeX gridResult)))"

definition yIterations :: "GridResult \<Rightarrow> int \<Rightarrow> nat" where
  "yIterations gridResult rows =
     (if sizeY gridResult = 0 then 0
      else nat (round (containerSizeY gridResult rows / sizeY gridResult)))"

text \<open>
  One pass of the loop over the four outer corners (\<open>i = 0, 1, 2, 3\<close>): the bottom corner,
  the top corner and the vertical edge between them, rotated by \<open>i\<close> quarter turns and
  moved to corner \<open>i\<close> of the container.
\<close>

definition cornerOffset :: "GridResult \<Rightarrow> real \<Rightarrow> int \<Rightarrow> int \<Rightarrow> nat \<Rightarrow> real \<times> real" where
  "cornerOffset gridResult cornerCuttingRadius rows cols i =
     (if i = 0 then (0, 0)
      else if i = 1 then (containerSizeX gridResult cols - cornerCuttingRadius, 0)
      else if i = 2 then (containerSizeX gridResult cols - cornerCuttingRadius,
                          containerSizeY gridResult rows - cornerCuttingRadius)
      else (0, containerSizeY gridResult rows - cornerCuttingRadius))"

definition outerCorner ::
  "Subparts \<Rightarrow> GridResult \<Rightarrow> real \<Rightarrow> real \<Rightarrow> int \<Rightarrow> int \<Rightarrow> nat \<Rightarrow> (part \<times> BufferGeometry) list" where
  "outerCorner subparts gridResult cornerCuttingRadius height rows cols i =
     (let containerSizeZ = height;
          bottom = rotateZWithTrim (pi / 2 * real i) (bottomCorner2W subparts);
          top = rotateZWithTrim (pi / 2 * real i) (topCorner2W subparts);
          topZposition = containerSizeZ - cornerCuttingRadius;
          edge = rotateZWithTrim (pi / 2 * real i)
                   (scale 1 1 ((containerSizeZ - 2 * cornerCuttingRadius) /
                                vz (bbMax (sideEdge2W subparts))) (sideEdge2W subparts));
          sideEdge2WZposition = vz (bbMax bottom);
          tx = fst (cornerOffset gridResult cornerCuttingRadius rows cols i);
          ty = snd (cornerOffset gridResult cornerCuttingRadius rows cols i)
      in [(BottomCorner2W, translate tx ty 0 bottom),
          (TopCorner2W, translate tx ty topZposition top),
          (SideEdge2W, translate tx ty sideEdge2WZposition edge)])"

text \<open>One pass \<open>j\<close> of the loop along the near and far boundaries.\<close>

definition nearFarEdge ::
  "Subparts \<Rightarrow> GridResult \<Rightarrow> real \<Rightarrow> int \<Rightarrow> nat \<Rightarrow> (part \<times> BufferGeometry) list" where
  "nearFarEdge subparts gridResult cornerCuttingRadius rows j =
     (let farY = containerSizeY gridResult rows - cornerCuttingRadius;
          sideBottomEdge = sideBottomEdges subparts;
          sideBottomEdgeFar = rotateZWithTrim pi sideBottomEdge;
          corner1WNearLeft = bottomCorner1WRightNear subparts;
          corner1WNearRight = flipGeometryWithTrim AxisX corner1WNearLeft;
          corner1WFarLeft = rotateZWithTrim pi corner1WNearRight;
          corner1WFarRight = rotateZWithTrim pi corner1WNearLeft
      in [(SideBottomEdges,
             translate (real j * sizeX gridResult + cornerCuttingRadius) 0 0 sideBottomEdge),
          (SideBottomEdges,
             translate (real j * sizeX gridResult + cornerCuttingRadius) farY 0 sideBottomEdgeFar)] @
         (if j > 0 then
            [(BottomCorner1WRightNear,
                translate (real j * sizeX gridResult - cornerCuttingRadius) 0 0 corner1WNearLeft),
             (BottomCorner1WRightNear,
                translate (real j * sizeX gridResult) 0 0 corner1WNearRight),
             (BottomCorner1WRightNear,
                translate (real j * sizeX gridResult - cornerCuttingRadius) farY 0 corner1WFarLeft),
             (BottomCorner1WRightNear,
                translate (real j * sizeX gridResult) farY 0 corner1WFarRight)]
          else []))"

text \<open>One pass \<open>j\<close> of the loop along the left and right boundaries.\<close>

definition leftRightEdge ::
  "Subparts \<Rightarrow> GridResult \<Rightarrow> real \<Rightarrow> int \<Rightarrow> nat \<Rightarrow> (part \<times> BufferGeometry) list" where
  "leftRightEdge subparts gridResult cornerCuttingRadius cols j =
     (let rightX = containerSizeX gridResult cols - cornerCuttingRadius;
          sideBottomLeftEdge = rotateZWithTrim (- pi / 2) (sideBottomEdges subparts);
          sideBottomRightEdge = rotateZWithTrim pi sideBottomLeftEdge;
          cornerLeft1WNear = bottomCorner1WLeftFar subparts;
          cornerLeft1WFar = flipGeometryWithTrim AxisY cornerLeft1WNear;
          cornerRight1WNear = trimBufferGeometryToOrigin (rotateZ pi cornerLeft1WFar);
          cornerRight1WFar = trimBufferGeometryToOrigin (rotateZ pi cornerLeft1WNear)
      in [(SideBottomEdges,
             translate 0 (real j * sizeY gridResult + cornerCuttingRadius) 0 sideBottomLeftEdge),
          (SideBottomEdges,
             translate rightX (real j * sizeY gridResult + cornerCuttingRadius) 0
               sideBottomRightEdge)] @
         (if j > 0 then
            [(BottomCorner1WLeftFar,
                translate 0 (real j * sizeY gridResult - cornerCuttingRadius) 0 cornerLeft1WNear),
             (BottomCorner1WLeftFar,
                translate 0 (real j * sizeY gridResult) 0 cornerLeft1WFar),
             (BottomCorner1WLeftFar,
                translate rightX (real j * sizeY gridResult - cornerCuttingRadius) 0
                  cornerRight1WNear),
             (BottomCorner1WLeftFar,
                translate rightX (real j * sizeY gridResult) 0 cornerRight1WFar)]
          else []))"

text \<open>One pass \<open>(x, y)\<close> of the nested loops over the cells.\<close>

definition interiorCell ::
  "Subparts \<Rightarrow> GridResult \<Rightarrow> real \<Rightarrow> nat \<Rightarrow> nat \<Rightarrow> (part \<times> BufferGeometry) list" where
  "interiorCell subparts gridResult cornerCuttingRadius x y =
     (let px = real x * sizeX gridResult; py = real y * sizeY gridResult;
          r = cornerCuttingRadius
      in [(BottomFloor, translate (px + r) (py + r) 0 (bottomFloor subparts))] @
         (if y > 0 then
            [(BottomEdge0W,
                translate (px + r) (py - r) 0 (rotateZWithTrim (pi / 2) (bottomEdge0W subparts))),
             (BottomEdge0W,
                translate (px + r) py 0 (rotateZWithTrim (- pi / 2) (bottomEdge0W subparts)))]
          else []) @
         (if x > 0 then
            [(BottomEdge0W, translate (px - r) (py + r) 0 (bottomEdge0W subparts)),
             (BottomEdge0W,
                translate px (py + r) 0 (rotateZWithTrim pi (bottomEdge0W subparts)))]
          else []) @
         (if x > 0 \<and> y > 0 then
            [(BottomCorner0W, translate (px - r) (py - r) 0 (bottomCorner0W subparts)),
             (BottomCorner0W,
                translate (px - r) py 0 (rotateZWithTrim (- pi / 2) (bottomCorner0W subparts))),
             (BottomCorner0W,
                translate px py 0 (rotateZWithTrim pi (bottomCorner0W subparts))),
             (BottomCorner0W,
                translate px (py - r) 0 (rotateZWithTrim (pi / 2) (bottomCorner0W subparts)))]
          else []))"

text \<open>
  The eight side pieces, in the order the source builds and pushes them. Their scale
  factors, like the one of the vertical corner edge above, are quotients by a coordinate
  of a bounding box. With a zero divisor the source goes on with \<open>NaN\<close> or infinite
  coordinates, which a real number cannot hold; the theorems about the sizes of these
  pieces assume a positive divisor.
\<close>

definition nearSideWall :: "Subparts \<Rightarrow> GridResult \<Rightarrow> real \<Rightarrow> real \<Rightarrow> int \<Rightarrow> BufferGeometry" where
  "nearSideWall subparts gridResult cornerCuttingRadius height cols =
     translate cornerCuttingRadius 0 cornerCuttingRadius
       (trimBufferGeometryToOrigin
         (scale ((containerSizeX gridResult cols - 2 * cornerCuttingRadius) /
                   vx (bbMax (sideWall subparts)))
                1
                ((height - 2 * cornerCuttingRadius) / vz (bbMax (sideWall subparts)))
                (sideWall subparts)))"

definition farSideWall ::
  "Subparts \<Rightarrow> GridResult \<Rightarrow> real \<Rightarrow> real \<Rightarrow> int \<Rightarrow> int \<Rightarrow> BufferGeometry" where
  "farSideWall subparts gridResult cornerCuttingRadius height rows cols =
     (let rotated = rotateZWithTrim pi
                      (nearSideWall subparts gridResult cornerCuttingRadius height cols)
      in translate cornerCuttingRadius
           (containerSizeY gridResult rows - vy (bbMax rotated)) cornerCuttingRadius rotated)"

definition nearSideTopEdge :: "Subparts \<Rightarrow> GridResult \<Rightarrow> real \<Rightarrow> real \<Rightarrow> int \<Rightarrow> BufferGeometry" where
  "nearSideTopEdge subparts gridResult cornerCuttingRadius height cols =
     translate cornerCuttingRadius 0 (height - cornerCuttingRadius)
       (trimBufferGeometryToOrigin
         (scale ((containerSizeX gridResult cols - 2 * cornerCuttingRadius) /
                   vx (bbMax (sideTopEdges subparts))) 1 1
                (sideTopEdges subparts)))"

definition farSideTopEdge ::
  "Subparts \<Rightarrow> GridResult \<Rightarrow> real \<Rightarrow> real \<Rightarrow> int \<Rightarrow> int \<Rightarrow> BufferGeometry" where
  "farSideTopEdge subparts gridResult cornerCuttingRadius height rows cols =
     (let rotated = rotateZWithTrim pi
                      (nearSideTopEdge subparts gridResult cornerCuttingRadius height cols)
      in translate cornerCuttingRadius
           (containerSizeY gridResult rows - vy (bbMax rotated))
           (height - cornerCuttingRadius) rotated)"

definition leftSideWall :: "Subparts \<Rightarrow> GridResult \<Rightarrow> real \<Rightarrow> real \<Rightarrow> int \<Rightarrow> BufferGeometry" where
  "leftSideWall subparts gridResult cornerCuttingRadius height rows =
     (let rotated = rotateZWithTrim (- pi / 2) (sideWall subparts)
      in translate 0 cornerCuttingRadius cornerCuttingRadius
           (trimBufferGeometryToOrigin
             (scale 1
                    ((containerSizeY gridResult rows - 2 * cornerCuttingRadius) /
                       vy (bbMax rotated))
                    ((height - 2 * cornerCuttingRadius + OVERLAP_THICKNESS) / vz (bbMax rotated))
                    rotated)))"

definition rightSideWall ::
  "Subparts \<Rightarrow> GridResult \<Rightarrow> real \<Rightarrow> real \<Rightarrow> int \<Rightarrow> int \<Rightarrow> BufferGeometry" where
  "rightSideWall subparts gridResult cornerCuttingRadius height rows cols =
     (let rotated = rotateZWithTrim pi
                      (leftSideWall subparts gridResult cornerCuttingRadius height rows)
      in translate (containerSizeX gridResult cols - vx (bbMax rotated))
           cornerCuttingRadius cornerCuttingRadius rotated)"

definition leftSideTopEdge :: "Subparts \<Rightarrow> GridResult \<Rightarrow> real \<Rightarrow> real \<Rightarrow> int \<Rightarrow> BufferGeometry" where
  "leftSideTopEdge subparts gridResult cornerCuttingRadius height rows =
     (let rotated = rotateZWithTrim (- pi / 2) (sideTopEdges subparts)
      in translate 0 cornerCuttingRadius (height - cornerCuttingRadius)
           (trimBufferGeometryToOrigin
             (scale 1
                    ((containerSizeY gridResult rows - 2 * cornerCuttingRadius) /
                       vy (bbMax rotated))
                    1 rotated)))"

definition rightSideTopEdge ::
  "Subparts \<Rightarrow> GridResult \<Rightarrow> real \<Rightarrow> real \<Rightarrow> int \<Rightarrow> int \<Rightarrow> BufferGeometry" where
  "rightSideTopEdge subparts gridResult cornerCuttingRadius height rows cols =
     (let rotated = rotateZWithTrim pi
                      (leftSideTopEdge subparts gridResult cornerCuttingRadius height rows)
      in translate (containerSizeX gridResult cols - vx (bbMax rotated))
           cornerCuttingRadius (height - cornerCuttingRadius) rotated)"

definition sidePieces ::
  "Subparts \<Rightarrow> GridResult \<Rightarrow> real \<Rightarrow> real \<Rightarrow> int \<Rightarrow> int \<Rightarrow> (part \<times> BufferGeometry) list" where
  "sidePieces subparts gridResult cornerCuttingRadius height rows cols =
     [(SideWall, nearSideWall subparts gridResult cornerCuttingRadius height cols),
      (SideWall, farSideWall subparts gridResult cornerCuttingRadius height rows cols),
      (SideTopEdges, nearSideTopEdge subparts gridResult cornerCuttingRadius height cols),
      (SideTopEdges, farSideTopEdge subparts gridResult cornerCuttingRadius height rows cols),
      (SideWall, leftSideWall subparts gridResult cornerCuttingRadius height rows),
      (SideWall, rightSideWall subparts gridResult cornerCuttingRadius height rows cols),
      (SideTopEdges, leftSideTopEdge subparts gridResult cornerCuttingRadius height rows),
      (SideTopEdges, rightSideTopEdge subparts gridResult cornerCuttingRadius height rows cols)]"

text \<open>The array \<open>geometries\<close> when the source reaches its emptiness test, with the labels.\<close>

definition placedPieces ::
  "Subparts \<Rightarrow> GridResult \<Rightarrow> real \<Rightarrow> real \<Rightarrow> int \<Rightarrow> int \<Rightarrow> (part \<times> BufferGeometry) list" where
  "placedPieces subparts gridResult cornerCuttingRadius height rows cols =
     concat (map (outerCorner subparts gridResult cornerCuttingRadius height rows cols) [0..<4]) @
     concat (map (nearFarEdge subparts gridResult cornerCuttingRadius rows)
               [0..<xIterations gridResult cols]) @
     concat (map (leftRightEdge subparts gridResult cornerCuttingRadius cols)
               [0..<yIterations gridResult rows]) @
     concat (map (\<lambda>x. concat (map (interiorCell subparts gridResult cornerCuttingRadius x)
                                  [0..<yIterations gridResult rows]))
               [0..<xIterations gridResult cols]) @
     sidePieces subparts gridResult cornerCuttingRadius height rows cols"

fun unionAllLoop :: "ext \<Rightarrow> BufferGeometry \<Rightarrow> BufferGeometry list \<Rightarrow> BufferGeometry" where
  "unionAllLoop e result [] = result"
| "unionAllLoop e result (g # gs) = unionAllLoop e (csgAddition e result g) gs"

definition unionAllGeometry :: "ext \<Rightarrow> BufferGeometry list \<Rightarrow> error + BufferGeometry" where
  "unionAllGeometry e geoms =
     (case geoms of
        [] \<Rightarrow> Inl NoGeometryToUnion
      | g # gs \<Rightarrow> Inr (unionAllLoop e g gs))"

definition subpartList :: "Subparts \<Rightarrow> BufferGeometry list" where
  "subpartList subparts =
     [bottomCorner2W subparts, topCorner2W subparts, bottomCorner1WRightNear subparts,
      bottomCorner1WLeftFar subparts, topCorner1W subparts, bottomCorner0W subparts,
      sideTopEdges subparts, sideBottomEdges subparts, sideEdge2W subparts,
      sideWall subparts, bottomFloor subparts, bottomEdge0W subparts]"

text \<open>
  \<open>reassemble\<close>. The outer \<open>option\<close> is \<open>None\<close> when the repair loop never leaves; \<open>Inl\<close> is
  a thrown error. \<open>dividerThickness\<close> and \<open>unionAll\<close> are optional arguments (\<open>None\<close> is
  \<open>undefined\<close>, which is falsy).
\<close>

definition reassemble ::
  "ext \<Rightarrow> Subparts \<Rightarrow> GridResult \<Rightarrow> real \<Rightarrow> real \<Rightarrow> int \<Rightarrow> int \<Rightarrow> real option \<Rightarrow> bool option
   \<Rightarrow> (error + BufferGeometry) option" where
  "reassemble e subparts gridResult cornerCuttingRadius height rows cols dividerThickness unionAll =
     (case validateAll e (subpartList subparts) of
        Inl err \<Rightarrow> Some (Inl err)
      | Inr _ \<Rightarrow>
        let geometries =
              map snd (placedPieces subparts gridResult cornerCuttingRadius height rows cols)
        in if length geometries = 0 then Some (Inl NoGeometriesToMerge)
           else
             (case (if unionAll = Some True
                    then (case unionAllGeometry e geometries of
                            Inl err \<Rightarrow> Inl err
                          | Inr u \<Rightarrow> Inr (Some u))
                    else Inr (mergeGeometries e geometries)) of
                Inl err \<Rightarrow> Some (Inl err)
              | Inr None \<Rightarrow> Some (Inl FailedToMerge)
              | Inr (Some merged) \<Rightarrow>
                  (case fixNonManifoldGeometry e merged of
                     None \<Rightarrow> None
                   | Some fixed \<Rightarrow>
                       (case validateGeometry e fixed of
                          Inl err \<Rightarrow> Some (Inl err)
                        | Inr _ \<Rightarrow> Some (Inr fixed)))))"

section \<open>Cutting\<close>

text \<open>
  \<open>makeBoxMesh\<close>: the cutter box over \<open>[xMin, xMax] \<times> [yMin, yMax] \<times> [zMin, zMax]\<close>,
  widened by the overlap thickness.
\<close>

definition makeBoxMesh :: "real \<Rightarrow> real \<Rightarrow> real \<Rightarrow> real \<Rightarrow> real \<Rightarrow> real \<Rightarrow> BoxMesh" where
  "makeBoxMesh xMin xMax yMin yMax zMin zMax =
     (let bx = xMax - xMin + OVERLAP_THICKNESS;
          by = yMax - yMin + OVERLAP_THICKNESS;
          bz = zMax - zMin + OVERLAP_THICKNESS
      in \<lparr>boxSize = (bx, by, bz),
          boxCentre = (xMin - OVERLAP_THICKNESS / 2 + bx / 2,
                       yMin - OVERLAP_THICKNESS / 2 + by / 2,
                       zMin - OVERLAP_THICKNESS / 2 + bz / 2)\<rparr>)"

text \<open>
  \<open>cutByMeshBox\<close> changes its argument in place before it cuts (normals, trim, an index
  \<open>0, 1, 2, ...\<close> when there is none): \<open>prepareBrush\<close> is the argument after the call.
\<close>

definition prepareBrush :: "BufferGeometry \<Rightarrow> BufferGeometry" where
  "prepareBrush g =
     (let g1 = trimBufferGeometryToOrigin (computeVertexNormals g)
      in g1\<lparr>index := Some (case index g1 of
                               None \<Rightarrow> [0..<length (position g1)]
                             | Some ix \<Rightarrow> ix)\<rparr>)"

definition cutByMeshBox :: "ext \<Rightarrow> BufferGeometry \<Rightarrow> BoxMesh \<Rightarrow> BufferGeometry" where
  "cutByMeshBox e g meshBox =
     computeVertexNormals
       (mergeVertices e MERGE_VERTICES_TOLERANCE
         (deleteNormal (csgIntersection e (prepareBrush g) meshBox)))"

text \<open>
  \<open>cutToGrid\<close>. The first component is the caller's \<open>baseGeom\<close> object after the call (the
  function works on it in place), the second the thrown error or the returned value.
  \<open>n\<close> and \<open>m\<close> are numbers; a \<open>NaN\<close> would pass the guard, both comparisons being false.
\<close>

definition cutToGrid ::
  "ext \<Rightarrow> BufferGeometry \<Rightarrow> real \<Rightarrow> real \<Rightarrow> BufferGeometry \<times> (error + GridResult)" where
  "cutToGrid e baseGeom n m =
     (if n < 2 \<or> m < 2 then (baseGeom, Inl InvalidGridSize)
      else
        let trimmed = trimBufferGeometryToOrigin baseGeom
        in case validateGeometry e trimmed of
             Inl err \<Rightarrow> (trimmed, Inl err)
           | Inr _ \<Rightarrow>
               let bmin = bbMin trimmed; bmax = bbMax trimmed;
                   sx = vx bmax - vx bmin;
                   sy = vy bmax - vy bmin;
                   sz = vz bmax - vz bmin;
                   gridSizeX = sx / n;
                   gridSizeY = sy / m;
                   cornerPart =
                     cutByMeshBox e trimmed
                       (makeBoxMesh (vx bmin) (vx bmin + gridSizeX)
                                    (vy bmin) (vy bmin + gridSizeY)
                                    (vz bmin) (vz bmin + sz))
               in (prepareBrush trimmed,
                   Inr \<lparr>geometry = trimBufferGeometryToOrigin cornerPart,
                        sizeX = gridSizeX, sizeY = gridSizeY, sizeZ = sz\<rparr>))"

text \<open>\<open>cutToParts\<close>: twelve cuts of clones of the cell, each trimmed, then all validated.\<close>

definition cutToParts :: "ext \<Rightarrow> BufferGeometry \<Rightarrow> real \<Rightarrow> error + Subparts" where
  "cutToParts e baseGeom cornerRadius =
     (case validateGeometry e baseGeom of
        Inl err \<Rightarrow> Inl err
      | Inr _ \<Rightarrow>
          let x0 = vx (bbMin baseGeom); y0 = vy (bbMin baseGeom); z0 = vz (bbMin baseGeom);
              sx = vx (bbMax baseGeom) - x0;
              sy = vy (bbMax baseGeom) - y0;
              sz = vz (bbMax baseGeom) - z0;
              r = cornerRadius;
              cut = (\<lambda>box. trimBufferGeometryToOrigin (cutByMeshBox e baseGeom box));
              parts =
                \<lparr>bottomCorner2W =
                   cut (makeBoxMesh x0 (x0 + r) y0 (y0 + r) z0 (z0 + r)),
                 topCorner2W =
                   cut (makeBoxMesh x0 (x0 + r) y0 (y0 + r) (z0 + sz - r) (z0 + sz)),
                 bottomCorner1WRightNear =
                   cut (makeBoxMesh (x0 + sx - r) (x0 + sx) y0 (y0 + r) z0 (z0 + r)),
                 bottomCorner1WLeftFar =
                   cut (makeBoxMesh x0 (x0 + r) (y0 + sy - r) (y0 + sy) z0 (z0 + r)),
                 topCorner1W =
                   cut (makeBoxMesh (x0 + sx - r) (x0 + sx) y0 (y0 + r) (z0 + sz - r) (z0 + sz)),
                 bottomCorner0W =
                   cut (makeBoxMesh (x0 + sx - r) (x0 + sx) (y0 + sy - r) (y0 + sy) z0 (z0 + r)),
                 sideTopEdges =
                   cut (makeBoxMesh (x0 + r) (x0 + sx - r) y0 (y0 + r) (z0 + sz - r) (z0 + sz)),
                 sideBottomEdges =
                   cut (makeBoxMesh (x0 + r) (x0 + sx - r) y0 (y0 + r) z0 (z0 + r)),
                 sideEdge2W =
                   cut (makeBoxMesh x0 (x0 + r) y0 (y0 + r) (z0 + r) (z0 + sz - r)),
                 sideWall =
                   cut (makeBoxMesh (x0 + r) (x0 + sx - r) y0 (y0 + r) (z0 + r) (z0 + sz - r)),
                 bottomFloor =
                   cut (makeBoxMesh (x0 + r) (x0 + sx - r) (y0 + r) (y0 + sy - r) z0 (z0 + r)),
                 bottomEdge0W =
                   cut (makeBoxMesh (x0 + sx - r) (x0 + sx) (y0 + r) (y0 + sy - r) z0 (z0 + r))\<rparr>
          in (case validateAll e (subpartList parts) of
                Inl err \<Rightarrow> Inl err
              | Inr _ \<Rightarrow> Inr parts))"

section \<open>The pipeline\<close>

text \<open>
  The block of \<open>Gridifier\<close> that rescales the extracted cell when \<open>outputGridSize\<close> is
  given: it yields the grid result and the corner radius the later stages use. The factor
  is a quotient by the cell's \<open>sizeX\<close>; what follows a zero \<open>sizeX\<close> is not a real number,
  and the theorems on this block assume a non-zero \<open>sizeX\<close>.
\<close>

definition rescale ::
  "ext \<Rightarrow> GridResult \<Rightarrow> real \<Rightarrow> real option \<Rightarrow> error + GridResult \<times> real" where
  "rescale e originalGridResult inputCornerRadius outputGridSize =
     (case outputGridSize of
        None \<Rightarrow> Inr (originalGridResult, inputCornerRadius)
      | Some target \<Rightarrow>
          let s = target / sizeX originalGridResult;
              scaledGeometry =
                trimBufferGeometryToOrigin (scale s s s (geometry originalGridResult))
          in (case validateGeometry e scaledGeometry of
                Inl err \<Rightarrow> Inl err
              | Inr _ \<Rightarrow>
                  Inr (\<lparr>geometry = scaledGeometry,
                        sizeX = sizeX originalGridResult * s,
                        sizeY = sizeY originalGridResult * s,
                        sizeZ = sizeZ originalGridResult * s\<rparr>,
                       inputCornerRadius * s)))"

record GridifierOptions =
  inputGrids :: "real \<times> real"
  inputCornerRadius :: real
  height :: real
  outputGrids :: "int \<times> int"
  outputGridSize :: "real option"
  dividerThickness :: "real option"
  unionAll :: "bool option"
  debug :: "bool option"

text \<open>The rest of \<open>Gridifier\<close>, from the grid result and the corner radius on.\<close>

definition decomposeAndReassemble ::
  "ext \<Rightarrow> GridifierOptions \<Rightarrow> GridResult \<Rightarrow> real \<Rightarrow> (error + string) option" where
  "decomposeAndReassemble e options gridResult cornerCuttingRadius =
     (case cutToParts e (geometry gridResult) cornerCuttingRadius of
        Inl err \<Rightarrow> Some (Inl err)
      | Inr subparts \<Rightarrow>
          (case reassemble e subparts gridResult cornerCuttingRadius (height options)
                  (fst (outputGrids options)) (snd (outputGrids options))
                  (dividerThickness options) (unionAll options) of
             None \<Rightarrow> None
           | Some (Inl err) \<Rightarrow> Some (Inl err)
           | Some (Inr merged) \<Rightarrow> Some (Inr (stlExport e merged))))"

text \<open>
  \<open>Gridifier\<close>. \<open>debugDir\<close> is whether the directory \<open>./debug\<close> exists (\<open>isDebug()\<close>); the
  files written there are left out. \<open>loadBase\<close> is its first step: the parsed mesh, cut
  once by its own bounding box when \<open>debugDir\<close> holds.
\<close>

definition loadBase :: "ext \<Rightarrow> bool \<Rightarrow> string \<Rightarrow> BufferGeometry" where
  "loadBase e debugDir input =
     (let loaded = stlParse e input
      in if debugDir then
           let t = trimBufferGeometryToOrigin loaded
           in cutByMeshBox e t
                (makeBoxMesh (vx (bbMin t)) (vx (bbMax t)) (vy (bbMin t)) (vy (bbMax t))
                             (vz (bbMin t)) (vz (bbMax t)))
         else loaded)"

definition Gridifier :: "ext \<Rightarrow> bool \<Rightarrow> string \<Rightarrow> GridifierOptions \<Rightarrow> (error + string) option" where
  "Gridifier e debugDir input options =
     (let baseGeom = loadBase e debugDir input
      in case snd (cutToGrid e baseGeom (fst (inputGrids options)) (snd (inputGrids options))) of
           Inl err \<Rightarrow> Some (Inl err)
         | Inr originalGridResult \<Rightarrow>
             (case validateGeometry e (geometry originalGridResult) of
                Inl err \<Rightarrow> Some (Inl err)
              | Inr _ \<Rightarrow>
                  (case rescale e originalGridResult (inputCornerRadius options)
                          (outputGridSize options) of
                     Inl err \<Rightarrow> Some (Inl err)
                   | Inr cell \<Rightarrow> decomposeAndReassemble e options (fst cell) (snd cell))))"

section \<open>The command line's grid-size parser\<close>

text \<open>
  The values \<open>Number(s)\<close> can take. \<open>Number\<close> itself is a parameter of \<open>parseGridSize\<close>.
\<close>

datatype jsnum = Num real | PosInfinity | NegInfinity | NaN

text \<open>\<open>v < c\<close> for a number \<open>c\<close>; \<open>None\<close> is \<open>undefined\<close>, which compares as \<open>NaN\<close>.\<close>

fun jsLess :: "jsnum option \<Rightarrow> real \<Rightarrow> bool" where
  "jsLess (Some (Num a)) c = (a < c)"
| "jsLess (Some NegInfinity) c = True"
| "jsLess (Some PosInfinity) c = False"
| "jsLess (Some NaN) c = False"
| "jsLess None c = False"

text \<open>\<open>input.split(sep)\<close> for a one-character separator: at least one piece.\<close>

fun split :: "char \<Rightarrow> string \<Rightarrow> string list" where
  "split sep [] = [[]]"
| "split sep (c # cs) =
     (if c = sep then [] # split sep cs
      else (case split sep cs of [] \<Rightarrow> [[c]] | p # ps \<Rightarrow> (c # p) # ps))"

text \<open>
  \<open>parseGridSize\<close>: \<open>[n, m] = input.split('x').map(Number)\<close> takes the first two pieces
  (\<open>m\<close> is \<open>undefined\<close> when there is one piece only) and drops the others.
\<close>

definition parseGridSize ::
  "(string \<Rightarrow> jsnum) \<Rightarrow> string \<Rightarrow> error + jsnum option \<times> jsnum option" where
  "parseGridSize Number input =
     (let pieces = map Number (split CHR ''x'' input);
          n = (case pieces of [] \<Rightarrow> None | a # _ \<Rightarrow> Some a);
          m = (case pieces of a # b # _ \<Rightarrow> Some b | _ \<Rightarrow> None)
      in if jsLess n 1 \<or> jsLess m 1 then Inl InvalidGridSize else Inr (n, m))"

section \<open>Notions the properties are stated with\<close>

definition pieceCount :: "part \<Rightarrow> (part \<times> BufferGeometry) list \<Rightarrow> nat" where
  "pieceCount k ps = length (filter (\<lambda>p. fst p = k) ps)"

definition xExtent :: "BufferGeometry \<Rightarrow> real" where
  "xExtent g = vx (bbMax g) - vx (bbMin g)"

definition yExtent :: "BufferGeometry \<Rightarrow> real" where
  "yExtent g = vy (bbMax g) - vy (bbMin g)"

definition zExtent :: "BufferGeometry \<Rightarrow> real" where
  "zExtent g = vz (bbMax g) - vz (bbMin g)"

definition triangleCount :: "BufferGeometry \<Rightarrow> nat" where
  "triangleCount g =
     (case index g of None \<Rightarrow> length (position g) div 3 | Some ix \<Rightarrow> length (faces ix))"

text \<open>Two triangles of the index buffer have the same set of vertex indices.\<close>

definition hasDuplicateFaces :: "BufferGeometry \<Rightarrow> bool" where
  "hasDuplicateFaces g =
     (case index g of
        None \<Rightarrow> False
      | Some ix \<Rightarrow> \<not> distinct (map (\<lambda>f. case f of (a, b, c) \<Rightarrow> {a, b, c}) (faces ix)))"

section \<open>Sample inputs\<close>

definition wedge :: BufferGeometry where
  "wedge = \<lparr>position = [(0, 0, 0), (1, 0, 0), (0, 1, 1)], index = Some [0, 1, 2], hasNormal = True\<rparr>"

definition sampleParts :: Subparts where
  "sampleParts =
     \<lparr>bottomCorner2W = wedge, topCorner2W = wedge, bottomCorner1WRightNear = wedge,
      bottomCorner1WLeftFar = wedge, topCorner1W = wedge, bottomCorner0W = wedge,
      sideTopEdges = wedge, sideBottomEdges = wedge, sideEdge2W = wedge, sideWall = wedge,
      bottomFloor = wedge, bottomEdge0W = wedge\<rparr>"

definition sampleCell :: GridResult where
  "sampleCell = \<lparr>geometry = wedge, sizeX = 1, sizeY = 1, sizeZ = 1\<rparr>"

text \<open>One triangle listed twice over three vertices that are far apart.\<close>

definition doubledTriangle :: BufferGeometry where
  "doubledTriangle =
     \<lparr>position = [(0, 0, 0), (1, 0, 0), (0, 1, 0)], index = Some [0, 1, 2, 0, 1, 2],
      hasNormal = False\<rparr>"

text \<open>
  Collaborators for the sample inputs: a welder that finds nothing to merge (the buffers
  as they are, with the index \<open>0, 1, 2, ...\<close> for an unindexed one), an intersection and a
  union that return their first argument, a merge that returns the first buffer, and no
  \<open>NaN\<close> anywhere.
\<close>

definition plainExt :: ext where
  "plainExt =
     \<lparr>weld = (\<lambda>tolerance g.
                (position g,
                 case index g of None \<Rightarrow> [0..<length (position g)] | Some ix \<Rightarrow> ix)),
      csgIntersection = (\<lambda>g box. g),
      csgAddition = (\<lambda>a b. a),
      mergeGeometries = (\<lambda>gs. case gs of [] \<Rightarrow> None | g # _ \<Rightarrow> Some g),
      nanDefect = (\<lambda>g. False),
      stlParse = (\<lambda>bytes. wedge),
      stlExport = (\<lambda>g. [])\<rparr>"

definition sampleOptions :: GridifierOptions where
  "sampleOptions =
     \<lparr>inputGrids = (4, 2), inputCornerRadius = 1 / 10, height = 10, outputGrids = (2, 6),
      outputGridSize = Some 2, dividerThickness = None, unionAll = None, debug = None\<rparr>"

text \<open>The cell \<open>cutToGrid\<close> extracts from the wedge as a 4 by 2 grid, with the plain collaborators.\<close>

definition sampleExtracted :: GridResult where
  "sampleExtracted = \<lparr>geometry = wedge, sizeX = 1 / 4, sizeY = 1 / 2, sizeZ = 1\<rparr>"

text \<open>
  \<open>Number\<close> on the strings the samples use (\<open>Number("abc")\<close> is \<open>NaN\<close>, \<open>Number("")\<close> is 0);
  the value on other strings is not meant.
\<close>

definition sampleNumber :: "string \<Rightarrow> jsnum" where
  "sampleNumber s =
     (if s = ''4'' then Num 4 else if s = ''2'' then Num 2 else if s = ''0'' then Num 0
      else if s = [] then Num 0 else NaN)"

text \<open>Two triangles over four vertices, the first one listed again in another rotation.\<close>

definition fan :: BufferGeometry where
  "fan = \<lparr>position = [(0, 0, 0), (1, 0, 0), (1, 1, 0), (0, 1, 0)],
           index = Some [0, 1, 2, 0, 2, 3, 2, 0, 1], hasNormal = False\<rparr>"

text \<open>
  A side-wall panel as \<open>cutToParts\<close> leaves it for a cell of 4 by 4 by 4 and a corner
  radius of 1: trimmed to the origin, 2 long, 1 thick and 2 high. \<open>wallParts\<close> has it as
  its side wall, \<open>wideCell\<close> is such a cell.
\<close>

definition wallPanel :: BufferGeometry where
  "wallPanel = \<lparr>position = [(0, 0, 0), (2, 0, 0), (2, 1, 2), (0, 1, 2)],
                 index = Some [0, 1, 2, 0, 2, 3], hasNormal = True\<rparr>"

definition wallParts :: Subparts where
  "wallParts = sampleParts\<lparr>sideWall := wallPanel\<rparr>"

definition wideCell :: GridResult where
  "wideCell = \<lparr>geometry = wedge, sizeX = 4, sizeY = 4, sizeZ = 4\<rparr>"

section \<open>The assembled list is never empty\<close>

lemma length_outerCorner:
  "length (outerCorner subparts gridResult r h rows cols i) = 3"
  by (simp add: outerCorner_def Let_def)

lemma length_outerCorners:
  "length (concat (map (outerCorner subparts gridResult r h rows cols) [0..<4])) = 12"
proof -
  have "[0..<4] = [0, 1, 2, 3::nat]"
    by (simp add: upt_rec)
  then show ?thesis
    by (simp add: length_outerCorner)
qed

lemma length_sidePieces:
  "length (sidePieces subparts gridResult r h rows cols) = 8"
  by (simp add: sidePieces_def)

lemma length_placedPieces:
  "20 \<le> length (placedPieces subparts gridResult r h rows cols)"
  unfolding placedPieces_def length_append length_outerCorners length_sidePieces
  by simp

text \<open>
  C10. For every \<open>rows\<close> and \<open>cols\<close> (zero and negative ones too) the list of placed pieces
  holds the twelve pieces of the four outer corners and the eight side pieces, so it has
  at least twenty entries, and \<open>reassemble\<close> never throws "No geometries to merge".
\<close>

theorem reassemble_never_empty:
  "length (concat (map (outerCorner subparts gridResult r h rows cols) [0..<4])) = 12
   \<and> length (sidePieces subparts gridResult r h rows cols) = 8
   \<and> 20 \<le> length (placedPieces subparts gridResult r h rows cols)
   \<and> reassemble e subparts gridResult r h rows cols d u
       \<noteq> Some (Inl NoGeometriesToMerge)"
proof -
  have pos: "length (map snd (placedPieces subparts gridResult r h rows cols)) \<noteq> 0"
    using length_placedPieces [of subparts gridResult r h rows cols] by auto
  have valid: "validateAll e gs \<noteq> Inl NoGeometriesToMerge" for gs
    by (induction gs) (simp_all add: validateGeometry_def)
  have union_ok: "unionAllGeometry e gs \<noteq> Inl NoGeometriesToMerge" for gs
    by (simp add: unionAllGeometry_def split: list.split)
  have "reassemble e subparts gridResult r h rows cols d u
          \<noteq> Some (Inl NoGeometriesToMerge)"
    using pos valid [of "subpartList subparts"]
      union_ok [of "map snd (placedPieces subparts gridResult r h rows cols)"]
    by (auto simp: reassemble_def Let_def validateGeometry_def fixNonManifoldGeometry_def
          split: sum.splits option.splits if_splits)
  then show ?thesis
    using length_outerCorners length_sidePieces length_placedPieces by blast
qed

section \<open>The divider thickness\<close>

text \<open>
  C8. \<open>reassemble\<close> gives the same outcome for any two values of \<open>dividerThickness\<close> when
  all its other arguments are the same, and so does the whole pipeline for two option
  sets that differ in \<open>dividerThickness\<close> only.
\<close>

theorem reassemble_ignores_dividerThickness:
  "reassemble e subparts gridResult r h rows cols d1 u
     = reassemble e subparts gridResult r h rows cols d2 u
   \<and> Gridifier e debugDir input (options\<lparr>dividerThickness := d1\<rparr>)
     = Gridifier e debugDir input (options\<lparr>dividerThickness := d2\<rparr>)"
proof -
  have r: "reassemble e sp g rad ht rs cs d1 un = reassemble e sp g rad ht rs cs d2 un"
    for sp g rad ht rs cs un
    by (simp add: reassemble_def)
  have tail: "decomposeAndReassemble e (options\<lparr>dividerThickness := d1\<rparr>) c rad
                = decomposeAndReassemble e (options\<lparr>dividerThickness := d2\<rparr>) c rad"
    for c rad
    by (simp add: decomposeAndReassemble_def r split: sum.split)
  show ?thesis
    by (simp add: r Gridifier_def tail split: sum.split)
qed

section \<open>Counting the placed pieces\<close>

lemma pieceCount_Nil: "pieceCount k [] = 0"
  by (simp add: pieceCount_def)

lemma pieceCount_Cons:
  "pieceCount k (p # ps) = (if fst p = k then 1 else 0) + pieceCount k ps"
  by (simp add: pieceCount_def)

lemma pieceCount_append: "pieceCount k (ps @ qs) = pieceCount k ps + pieceCount k qs"
  by (simp add: pieceCount_def)

lemma pieceCount_concat_upt:
  "pieceCount k (concat (map f [0..<n])) = (\<Sum>j<n. pieceCount k (f j))"
  by (induction n) (simp_all add: pieceCount_append pieceCount_Nil)

lemma sum_positive_passes: "(\<Sum>j<n. if 0 < j then c else 0) = c * (n - 1)" for c n :: nat
proof (induction n)
  case 0
  then show ?case by simp
next
  case (Suc n)
  then show ?case by (cases n) simp_all
qed

lemma pieceCount_outerCorner:
  "pieceCount k (outerCorner subparts gridResult r h rows cols i) =
     (if k = BottomCorner2W \<or> k = TopCorner2W \<or> k = SideEdge2W then 1 else 0)"
  by (auto simp: outerCorner_def Let_def pieceCount_Cons pieceCount_Nil)

lemma pieceCount_nearFarEdge:
  "pieceCount k (nearFarEdge subparts gridResult r rows j) =
     (if k = SideBottomEdges then 2
      else if k = BottomCorner1WRightNear \<and> 0 < j then 4 else 0)"
  by (auto simp: nearFarEdge_def Let_def pieceCount_Cons pieceCount_Nil pieceCount_append)

lemma pieceCount_leftRightEdge:
  "pieceCount k (leftRightEdge subparts gridResult r cols j) =
     (if k = SideBottomEdges then 2
      else if k = BottomCorner1WLeftFar \<and> 0 < j then 4 else 0)"
  by (auto simp: leftRightEdge_def Let_def pieceCount_Cons pieceCount_Nil pieceCount_append)

lemma pieceCount_interiorCell:
  "pieceCount k (interiorCell subparts gridResult r x y) =
     (if k = BottomFloor then 1
      else if k = BottomEdge0W then (if 0 < y then 2 else 0) + (if 0 < x then 2 else 0)
      else if k = BottomCorner0W \<and> 0 < x \<and> 0 < y then 4 else 0)"
  by (auto simp: interiorCell_def Let_def pieceCount_Cons pieceCount_Nil pieceCount_append)

lemma pieceCount_sidePieces:
  "pieceCount k (sidePieces subparts gridResult r h rows cols) =
     (if k = SideWall \<or> k = SideTopEdges then 4 else 0)"
  by (auto simp: sidePieces_def pieceCount_Cons pieceCount_Nil)

lemma pieceCount_placedPieces:
  "pieceCount k (placedPieces subparts gridResult r h rows cols) =
     (\<Sum>i<4. pieceCount k (outerCorner subparts gridResult r h rows cols i))
     + (\<Sum>j<xIterations gridResult cols. pieceCount k (nearFarEdge subparts gridResult r rows j))
     + (\<Sum>j<yIterations gridResult rows. pieceCount k (leftRightEdge subparts gridResult r cols j))
     + (\<Sum>x<xIterations gridResult cols. \<Sum>y<yIterations gridResult rows.
          pieceCount k (interiorCell subparts gridResult r x y))
     + pieceCount k (sidePieces subparts gridResult r h rows cols)"
  by (simp add: placedPieces_def pieceCount_append pieceCount_concat_upt)

lemma count_outer_pieces:
  assumes "k = BottomCorner2W \<or> k = TopCorner2W \<or> k = SideEdge2W"
  shows "pieceCount k (placedPieces subparts gridResult r h rows cols) = 4"
  using assms
  by (auto simp: pieceCount_placedPieces pieceCount_outerCorner pieceCount_nearFarEdge
        pieceCount_leftRightEdge pieceCount_interiorCell pieceCount_sidePieces)

lemma count_near_far_corners:
  "pieceCount BottomCorner1WRightNear (placedPieces subparts gridResult r h rows cols)
   = 4 * (xIterations gridResult cols - 1)"
  by (simp add: pieceCount_placedPieces pieceCount_outerCorner pieceCount_nearFarEdge
        pieceCount_leftRightEdge pieceCount_interiorCell pieceCount_sidePieces
        sum_positive_passes)

lemma count_left_right_corners:
  "pieceCount BottomCorner1WLeftFar (placedPieces subparts gridResult r h rows cols)
   = 4 * (yIterations gridResult rows - 1)"
  by (simp add: pieceCount_placedPieces pieceCount_outerCorner pieceCount_nearFarEdge
        pieceCount_leftRightEdge pieceCount_interiorCell pieceCount_sidePieces
        sum_positive_passes)

lemma count_floors:
  "pieceCount BottomFloor (placedPieces subparts gridResult r h rows cols)
   = xIterations gridResult cols * yIterations gridResult rows"
  by (simp add: pieceCount_placedPieces pieceCount_outerCorner pieceCount_nearFarEdge
        pieceCount_leftRightEdge pieceCount_interiorCell pieceCount_sidePieces)

lemma sum_interior_corners:
  "(\<Sum>x<X. \<Sum>y<Y. if 0 < x \<and> 0 < y then 4 else 0) = 4 * (X - 1) * (Y - 1)" for X Y :: nat
proof -
  have inner: "(\<Sum>y<Y. if 0 < x \<and> 0 < y then 4 else 0) = (if 0 < x then 4 * (Y - 1) else 0)"
    for x :: nat
    using sum_positive_passes [of 4 Y] by simp
  show ?thesis
    unfolding inner using sum_positive_passes [of "4 * (Y - 1)" X] by (simp add: mult.commute mult.left_commute)
qed

lemma count_interior_corners:
  "pieceCount BottomCorner0W (placedPieces subparts gridResult r h rows cols)
   = 4 * (xIterations gridResult cols - 1) * (yIterations gridResult rows - 1)"
  by (simp add: pieceCount_placedPieces pieceCount_outerCorner pieceCount_nearFarEdge
        pieceCount_leftRightEdge pieceCount_interiorCell pieceCount_sidePieces
        sum_interior_corners)

lemma xIterations_cols: "sizeX gridResult \<noteq> 0 \<Longrightarrow> xIterations gridResult cols = nat cols"
  by (simp add: xIterations_def containerSizeX_def)

lemma yIterations_rows: "sizeY gridResult \<noteq> 0 \<Longrightarrow> yIterations gridResult rows = nat rows"
  by (simp add: yIterations_def containerSizeY_def)

lemma labels_outerCorners:
  "map fst (concat (map (outerCorner subparts gridResult r h rows cols) [0..<4]))
   = concat (replicate 4 [BottomCorner2W, TopCorner2W, SideEdge2W])"
proof -
  have "[0..<4] = [0, 1, 2, 3::nat]"
    by (simp add: upt_rec)
  moreover have "replicate 4 x = [x, x, x, x]" for x :: "part list"
    by (simp add: numeral_eq_Suc)
  ultimately show ?thesis
    by (simp add: outerCorner_def Let_def)
qed

text \<open>
  C1, as the code has it. For \<open>rows \<ge> 1\<close>, \<open>cols \<ge> 1\<close> and a cell whose \<open>sizeX\<close> and \<open>sizeY\<close>
  are not zero, the placed pieces start with the four outer-corner triplets (bottom corner,
  top corner, vertical edge), and hold 4 pieces of each of these kinds,
  \<open>4 \<times> (rows - 1 + cols - 1)\<close> one-wall corner pieces, \<open>4 \<times> (rows - 1) \<times> (cols - 1)\<close>
  zero-wall corner pieces and \<open>rows \<times> cols\<close> floor panels.
\<close>

theorem placed_piece_counts:
  assumes "1 \<le> rows" and "1 \<le> cols"
    and "sizeX gridResult \<noteq> 0" and "sizeY gridResult \<noteq> 0"
  shows "map fst (take 12 (placedPieces subparts gridResult r h rows cols))
           = concat (replicate 4 [BottomCorner2W, TopCorner2W, SideEdge2W])
         \<and> pieceCount BottomCorner2W (placedPieces subparts gridResult r h rows cols) = 4
         \<and> pieceCount TopCorner2W (placedPieces subparts gridResult r h rows cols) = 4
         \<and> pieceCount SideEdge2W (placedPieces subparts gridResult r h rows cols) = 4
         \<and> int (pieceCount BottomCorner1WRightNear (placedPieces subparts gridResult r h rows cols)
                + pieceCount BottomCorner1WLeftFar (placedPieces subparts gridResult r h rows cols))
             = 4 * ((rows - 1) + (cols - 1))
         \<and> int (pieceCount BottomCorner0W (placedPieces subparts gridResult r h rows cols))
             = 4 * (rows - 1) * (cols - 1)
         \<and> int (pieceCount BottomFloor (placedPieces subparts gridResult r h rows cols))
             = rows * cols"
proof -
  have start: "take 12 (placedPieces subparts gridResult r h rows cols)
                 = concat (map (outerCorner subparts gridResult r h rows cols) [0..<4])"
    unfolding placedPieces_def using length_outerCorners [of subparts gridResult r h rows cols]
    by simp
  have x: "xIterations gridResult cols = nat cols" and y: "yIterations gridResult rows = nat rows"
    using assms by (simp_all add: xIterations_cols yIterations_rows)
  have one_wall: "int (4 * (nat cols - 1) + 4 * (nat rows - 1)) = 4 * ((rows - 1) + (cols - 1))"
    using assms by simp
  have c: "int (nat cols - 1) = cols - 1" and r: "int (nat rows - 1) = rows - 1"
    using assms by arith+
  have "int (4 * (nat cols - 1) * (nat rows - 1)) = 4 * int (nat cols - 1) * int (nat rows - 1)"
    by simp
  also have "\<dots> = 4 * (cols - 1) * (rows - 1)"
    by (simp only: c r)
  also have "\<dots> = 4 * (rows - 1) * (cols - 1)"
    by (simp only: ac_simps)
  finally have zero_wall:
    "int (4 * (nat cols - 1) * (nat rows - 1)) = 4 * (rows - 1) * (cols - 1)" .
  have floor: "int (nat cols * nat rows) = rows * cols"
    using assms by simp
  have p1: "map fst (take 12 (placedPieces subparts gridResult r h rows cols))
              = concat (replicate 4 [BottomCorner2W, TopCorner2W, SideEdge2W])"
    unfolding start by (rule labels_outerCorners)
  have p2: "pieceCount BottomCorner2W (placedPieces subparts gridResult r h rows cols) = 4"
    and p3: "pieceCount TopCorner2W (placedPieces subparts gridResult r h rows cols) = 4"
    and p4: "pieceCount SideEdge2W (placedPieces subparts gridResult r h rows cols) = 4"
    by (simp_all add: count_outer_pieces)
  have p5: "int (pieceCount BottomCorner1WRightNear (placedPieces subparts gridResult r h rows cols)
                 + pieceCount BottomCorner1WLeftFar (placedPieces subparts gridResult r h rows cols))
            = 4 * ((rows - 1) + (cols - 1))"
    unfolding count_near_far_corners count_left_right_corners x y by (rule one_wall)
  have p6: "int (pieceCount BottomCorner0W (placedPieces subparts gridResult r h rows cols))
            = 4 * (rows - 1) * (cols - 1)"
    unfolding count_interior_corners x y by (rule zero_wall)
  have p7: "int (pieceCount BottomFloor (placedPieces subparts gridResult r h rows cols))
            = rows * cols"
    unfolding count_floors x y by (rule floor)
  show ?thesis
    using p1 p2 p3 p4 p5 p6 p7 by blast
qed

theorem placed_piece_counts_witness:
  "map fst (take 12 (placedPieces sampleParts sampleCell (1 / 10) 1 2 3))
     = concat (replicate 4 [BottomCorner2W, TopCorner2W, SideEdge2W])
   \<and> pieceCount BottomCorner2W (placedPieces sampleParts sampleCell (1 / 10) 1 2 3) = 4
   \<and> pieceCount TopCorner2W (placedPieces sampleParts sampleCell (1 / 10) 1 2 3) = 4
   \<and> pieceCount SideEdge2W (placedPieces sampleParts sampleCell (1 / 10) 1 2 3) = 4
   \<and> int (pieceCount BottomCorner1WRightNear (placedPieces sampleParts sampleCell (1 / 10) 1 2 3)
          + pieceCount BottomCorner1WLeftFar (placedPieces sampleParts sampleCell (1 / 10) 1 2 3))
       = 12
   \<and> int (pieceCount BottomCorner0W (placedPieces sampleParts sampleCell (1 / 10) 1 2 3)) = 8
   \<and> int (pieceCount BottomFloor (placedPieces sampleParts sampleCell (1 / 10) 1 2 3)) = 6"
  using placed_piece_counts [of 2 3 sampleCell sampleParts "1 / 10" 1]
  by (simp add: sampleCell_def)

text \<open>
  The count of one-wall corner pieces the claim gives, \<open>2 \<times> (rows - 1 + cols - 1)\<close>, fails
  for one row of two cells: the seam between the cells gets four pieces (near left, near
  right, far left, far right).
\<close>

theorem one_wall_corner_count_counterexample:
  "pieceCount BottomCorner1WRightNear (placedPieces sampleParts sampleCell (1 / 10) 1 1 2)
     + pieceCount BottomCorner1WLeftFar (placedPieces sampleParts sampleCell (1 / 10) 1 1 2) = 4
   \<and> int (pieceCount BottomCorner1WRightNear (placedPieces sampleParts sampleCell (1 / 10) 1 1 2)
          + pieceCount BottomCorner1WLeftFar (placedPieces sampleParts sampleCell (1 / 10) 1 1 2))
       \<noteq> 2 * ((1 - 1) + (2 - 1))"
  by (simp add: count_near_far_corners count_left_right_corners xIterations_cols
        yIterations_rows sampleCell_def)

section \<open>Bounding boxes under the transformations\<close>

lemma vx_triple: "vx (a, b, c) = a" and vy_triple: "vy (a, b, c) = b" and vz_triple: "vz (a, b, c) = c"
  by (simp_all add: vx_def vy_def vz_def)

lemma triple_eq: "p = (vx p, vy p, vz p)"
  by (simp add: vx_def vy_def vz_def)

lemma fold_box_max:
  "foldl (\<lambda>a q. (max (vx a) (vx q), max (vy a) (vy q), max (vz a) (vz q))) p ps
   = (Max (vx ` set (p # ps)), Max (vy ` set (p # ps)), Max (vz ` set (p # ps)))"
proof (induction ps arbitrary: p)
  case Nil
  then show ?case using triple_eq [of p] by simp
next
  case (Cons q ps)
  show ?case
    by (cases "ps = []") (simp_all add: Cons.IH vx_triple vy_triple vz_triple max.assoc)
qed

lemma fold_box_min:
  "foldl (\<lambda>a q. (min (vx a) (vx q), min (vy a) (vy q), min (vz a) (vz q))) p ps
   = (Min (vx ` set (p # ps)), Min (vy ` set (p # ps)), Min (vz ` set (p # ps)))"
proof (induction ps arbitrary: p)
  case Nil
  then show ?case using triple_eq [of p] by simp
next
  case (Cons q ps)
  show ?case
    by (cases "ps = []") (simp_all add: Cons.IH vx_triple vy_triple vz_triple min.assoc)
qed

lemma boundingBox_nonempty:
  assumes "position g \<noteq> []"
  shows "boundingBox g =
     Some ((Min (vx ` set (position g)), Min (vy ` set (position g)), Min (vz ` set (position g))),
           (Max (vx ` set (position g)), Max (vy ` set (position g)), Max (vz ` set (position g))))"
  using assms by (cases "position g") (simp_all add: boundingBox_def fold_box_max fold_box_min)


lemma boundingBox_empty: "position g = [] \<Longrightarrow> boundingBox g = None"
  by (simp add: boundingBox_def)

lemma bbMax_nonempty:
  assumes "position g \<noteq> []"
  shows "vx (bbMax g) = Max (vx ` set (position g))"
    and "vy (bbMax g) = Max (vy ` set (position g))"
    and "vz (bbMax g) = Max (vz ` set (position g))"
  using assms by (simp_all add: bbMax_def boundingBox_nonempty vx_triple vy_triple vz_triple)

lemma bbMin_nonempty:
  assumes "position g \<noteq> []"
  shows "vx (bbMin g) = Min (vx ` set (position g))"
    and "vy (bbMin g) = Min (vy ` set (position g))"
    and "vz (bbMin g) = Min (vz ` set (position g))"
  using assms by (simp_all add: bbMin_def boundingBox_nonempty vx_triple vy_triple vz_triple)

lemma bb_empty:
  assumes "position g = []"
  shows "bbMax g = (0, 0, 0)" and "bbMin g = (0, 0, 0)"
  using assms by (simp_all add: bbMax_def bbMin_def boundingBox_empty)

lemma Max_image_add:
  fixes S :: "real set"
  assumes "finite S" and "S \<noteq> {}"
  shows "Max ((\<lambda>z. z + t) ` S) = Max S + t"
  using mono_Max_commute [of "\<lambda>z. z + t" S] assms by (simp add: mono_def)

lemma Min_image_add:
  fixes S :: "real set"
  assumes "finite S" and "S \<noteq> {}"
  shows "Min ((\<lambda>z. z + t) ` S) = Min S + t"
  using mono_Min_commute [of "\<lambda>z. z + t" S] assms by (simp add: mono_def)

lemma Max_image_mult:
  fixes S :: "real set"
  assumes "finite S" and "S \<noteq> {}" and "0 \<le> k"
  shows "Max ((\<lambda>z. z * k) ` S) = Max S * k"
  using mono_Max_commute [of "\<lambda>z. z * k" S] assms by (simp add: mono_def mult_right_mono)

lemma Min_image_mult:
  fixes S :: "real set"
  assumes "finite S" and "S \<noteq> {}" and "0 \<le> k"
  shows "Min ((\<lambda>z. z * k) ` S) = Min S * k"
  using mono_Min_commute [of "\<lambda>z. z * k" S] assms by (simp add: mono_def mult_right_mono)

lemma position_translate:
  "position (translate tx ty tz g) = map (\<lambda>p. (vx p + tx, vy p + ty, vz p + tz)) (position g)"
  by (simp add: translate_def)

lemma position_scale:
  "position (scale sx sy sz g) = map (\<lambda>p. (vx p * sx, vy p * sy, vz p * sz)) (position g)"
  by (simp add: scale_def)

lemma zs_translate:
  "vz ` set (position (translate tx ty tz g)) = (\<lambda>z. z + tz) ` (vz ` set (position g))"
  by (simp add: position_translate image_image vz_triple)

lemma zs_scale:
  "vz ` set (position (scale sx sy sz g)) = (\<lambda>z. z * sz) ` (vz ` set (position g))"
  by (simp add: position_scale image_image vz_triple)

lemma zs_rotateZ: "vz ` set (position (rotateZ a g)) = vz ` set (position g)"
  by (simp add: rotateZ_def image_image vz_triple)

lemma empty_translate: "position (translate tx ty tz g) = [] \<longleftrightarrow> position g = []"
  by (simp add: position_translate)

lemma empty_scale: "position (scale sx sy sz g) = [] \<longleftrightarrow> position g = []"
  by (simp add: position_scale)

lemma empty_rotateZ: "position (rotateZ a g) = [] \<longleftrightarrow> position g = []"
  by (simp add: rotateZ_def)

lemma empty_trim: "position (trimBufferGeometryToOrigin g) = [] \<longleftrightarrow> position g = []"
  by (cases "position g = []")
     (simp_all add: trimBufferGeometryToOrigin_def boundingBox_empty boundingBox_nonempty
        empty_translate)

lemma zMax_translate:
  "position g \<noteq> [] \<Longrightarrow> vz (bbMax (translate tx ty tz g)) = vz (bbMax g) + tz"
  by (simp add: bbMax_nonempty empty_translate zs_translate Max_image_add)

lemma zMin_translate:
  "position g \<noteq> [] \<Longrightarrow> vz (bbMin (translate tx ty tz g)) = vz (bbMin g) + tz"
  by (simp add: bbMin_nonempty empty_translate zs_translate Min_image_add)

lemma zExtent_empty: "position g = [] \<Longrightarrow> zExtent g = 0"
  by (simp add: zExtent_def bb_empty)

lemma zExtent_translate: "zExtent (translate tx ty tz g) = zExtent g"
proof (cases "position g = []")
  case True
  then show ?thesis by (simp add: zExtent_empty empty_translate)
next
  case False
  then show ?thesis by (simp add: zExtent_def zMax_translate zMin_translate)
qed

lemma zExtent_rotateZ: "zExtent (rotateZ a g) = zExtent g"
proof (cases "position g = []")
  case True
  then show ?thesis by (simp add: zExtent_empty empty_rotateZ)
next
  case False
  then show ?thesis by (simp add: zExtent_def bbMax_nonempty bbMin_nonempty empty_rotateZ zs_rotateZ)
qed

lemma trim_nonempty:
  "position g \<noteq> [] \<Longrightarrow>
   trimBufferGeometryToOrigin g
     = translate (- vx (bbMin g)) (- vy (bbMin g)) (- vz (bbMin g)) g"
  by (simp add: trimBufferGeometryToOrigin_def bbMin_def boundingBox_nonempty)

lemma trim_empty: "position g = [] \<Longrightarrow> trimBufferGeometryToOrigin g = g"
  by (simp add: trimBufferGeometryToOrigin_def boundingBox_empty)

lemma zExtent_trim: "zExtent (trimBufferGeometryToOrigin g) = zExtent g"
  by (cases "position g = []") (simp_all add: trim_empty trim_nonempty zExtent_translate)

lemma zMin_trim: "vz (bbMin (trimBufferGeometryToOrigin g)) = 0"
  by (cases "position g = []")
     (simp_all add: trim_empty trim_nonempty zMin_translate bb_empty vz_triple)

lemma zMax_trim: "vz (bbMax (trimBufferGeometryToOrigin g)) = zExtent g"
  using zExtent_trim [of g] zMin_trim [of g] by (simp add: zExtent_def)

lemma zExtent_rotateZWithTrim: "zExtent (rotateZWithTrim a g) = zExtent g"
  by (simp add: rotateZWithTrim_def zExtent_trim zExtent_rotateZ)

lemma zMax_rotateZWithTrim: "vz (bbMax (rotateZWithTrim a g)) = zExtent g"
  by (simp add: rotateZWithTrim_def zMax_trim zExtent_rotateZ)

lemma zExtent_scale: "0 \<le> sz \<Longrightarrow> zExtent (scale sx sy sz g) = zExtent g * sz"
proof (cases "position g = []")
  case True
  then show ?thesis by (simp add: zExtent_empty empty_scale)
next
  case False
  moreover assume "0 \<le> sz"
  ultimately show ?thesis
    by (simp add: zExtent_def bbMax_nonempty bbMin_nonempty empty_scale zs_scale
          Max_image_mult Min_image_mult left_diff_distrib)
qed


lemma xs_translate:
  "vx ` set (position (translate tx ty tz g)) = (\<lambda>x. x + tx) ` (vx ` set (position g))"
  by (simp add: position_translate image_image vx_triple)

lemma ys_translate:
  "vy ` set (position (translate tx ty tz g)) = (\<lambda>y. y + ty) ` (vy ` set (position g))"
  by (simp add: position_translate image_image vy_triple)

lemma xExtent_translate: "xExtent (translate tx ty tz g) = xExtent g"
proof (cases "position g = []")
  case True
  then show ?thesis by (simp add: xExtent_def bb_empty empty_translate)
next
  case False
  then show ?thesis
    by (simp add: xExtent_def bbMax_nonempty bbMin_nonempty empty_translate xs_translate
          Max_image_add Min_image_add)
qed

lemma yExtent_translate: "yExtent (translate tx ty tz g) = yExtent g"
proof (cases "position g = []")
  case True
  then show ?thesis by (simp add: yExtent_def bb_empty empty_translate)
next
  case False
  then show ?thesis
    by (simp add: yExtent_def bbMax_nonempty bbMin_nonempty empty_translate ys_translate
          Max_image_add Min_image_add)
qed

lemma xExtent_trim: "xExtent (trimBufferGeometryToOrigin g) = xExtent g"
  by (cases "position g = []") (simp_all add: trim_empty trim_nonempty xExtent_translate)

lemma yExtent_trim: "yExtent (trimBufferGeometryToOrigin g) = yExtent g"
  by (cases "position g = []") (simp_all add: trim_empty trim_nonempty yExtent_translate)

lemma yMax_translate:
  "position g \<noteq> [] \<Longrightarrow> vy (bbMax (translate tx ty tz g)) = vy (bbMax g) + ty"
  by (simp add: bbMax_nonempty empty_translate ys_translate Max_image_add)

lemma yMin_translate:
  "position g \<noteq> [] \<Longrightarrow> vy (bbMin (translate tx ty tz g)) = vy (bbMin g) + ty"
  by (simp add: bbMin_nonempty empty_translate ys_translate Min_image_add)

lemma yMin_trim: "vy (bbMin (trimBufferGeometryToOrigin g)) = 0"
  by (cases "position g = []")
     (simp_all add: trim_empty trim_nonempty yMin_translate bb_empty vy_triple)

lemma yMax_trim: "vy (bbMax (trimBufferGeometryToOrigin g)) = yExtent g"
  using yExtent_trim [of g] yMin_trim [of g] by (simp add: yExtent_def)

lemma Max_image_uminus:
  fixes S :: "real set"
  assumes "finite S" and "S \<noteq> {}"
  shows "Max (uminus ` S) = - Min S"
  using assms by (intro Max_eqI) auto

lemma Min_image_uminus:
  fixes S :: "real set"
  assumes "finite S" and "S \<noteq> {}"
  shows "Min (uminus ` S) = - Max S"
  using assms by (intro Min_eqI) auto

lemma quarter_turn_back_cos_sin: "cos (- (pi / 2)) = 0" "sin (- (pi / 2)) = - 1"
  by simp_all

lemma position_quarter_turn_back:
  "position (rotateZ (- (pi / 2)) g) = map (\<lambda>p. (vy p, - vx p, vz p)) (position g)"
  unfolding rotateZ_def quarter_turn_back_cos_sin by simp


lemma ys_quarter_turn_back:
  "vy ` set (position (rotateZ (- (pi / 2)) g)) = uminus ` (vx ` set (position g))"
  unfolding position_quarter_turn_back by (simp add: image_image vy_triple)

lemma yExtent_quarter_turn_back: "yExtent (rotateZ (- (pi / 2)) g) = xExtent g"
proof (cases "position g = []")
  case True
  then show ?thesis by (simp add: yExtent_def xExtent_def bb_empty empty_rotateZ)
next
  case False
  then have ne: "position (rotateZ (- (pi / 2)) g) \<noteq> []"
    by (simp add: empty_rotateZ)
  have S: "finite (vx ` set (position g))" "vx ` set (position g) \<noteq> {}"
    using False by simp_all
  show ?thesis
    unfolding yExtent_def xExtent_def bbMax_nonempty [OF ne] bbMin_nonempty [OF ne]
      bbMax_nonempty [OF False] bbMin_nonempty [OF False] ys_quarter_turn_back
      Max_image_uminus [OF S] Min_image_uminus [OF S]
    by simp
qed

lemma left_wall_divisors:
  "vy (bbMax (rotateZWithTrim (- (pi / 2)) g)) = xExtent g"
  "vz (bbMax (rotateZWithTrim (- (pi / 2)) g)) = zExtent g"
  unfolding rotateZWithTrim_def yMax_trim zMax_trim yExtent_quarter_turn_back zExtent_rotateZ
  by simp_all

section \<open>The heights of the side walls\<close>

text \<open>
  The lemmas of this section follow the Z coordinates through the model. The theorem after
  them adds the conditions under which every divisor of a scale factor is positive, so
  that the source, too, computes with finite numbers.
\<close>

lemma zExtent_leftSideWall:
  assumes "0 < zExtent (sideWall subparts)" and "0 \<le> h - 2 * r + OVERLAP_THICKNESS"
  shows "zExtent (leftSideWall subparts gridResult r h rows) = h - 2 * r + OVERLAP_THICKNESS"
proof -
  have "0 \<le> (h - 2 * r + OVERLAP_THICKNESS) / zExtent (sideWall subparts)"
    using assms by simp
  then show ?thesis
    using assms(1)
    by (simp add: leftSideWall_def Let_def zExtent_translate zExtent_trim zExtent_scale
          zMax_rotateZWithTrim zExtent_rotateZWithTrim)
qed

lemma zExtent_rightSideWall:
  "zExtent (rightSideWall subparts gridResult r h rows cols)
   = zExtent (leftSideWall subparts gridResult r h rows)"
  by (simp add: rightSideWall_def Let_def zExtent_translate zExtent_rotateZWithTrim)

lemma zExtent_nearSideWall:
  assumes "vz (bbMin (sideWall subparts)) = 0" and "0 < vz (bbMax (sideWall subparts))"
    and "0 \<le> h - 2 * r"
  shows "zExtent (nearSideWall subparts gridResult r h cols) = h - 2 * r"
proof -
  have e: "zExtent (sideWall subparts) = vz (bbMax (sideWall subparts))"
    using assms(1) by (simp add: zExtent_def)
  have "0 \<le> (h - 2 * r) / vz (bbMax (sideWall subparts))"
    using assms by simp
  then show ?thesis
    using assms(2)
    by (simp add: nearSideWall_def zExtent_translate zExtent_trim zExtent_scale e)
qed

lemma zExtent_farSideWall:
  "zExtent (farSideWall subparts gridResult r h rows cols)
   = zExtent (nearSideWall subparts gridResult r h cols)"
  by (simp add: farSideWall_def Let_def zExtent_translate zExtent_rotateZWithTrim)

lemma sidePieces_placed:
  "set (sidePieces subparts gridResult r h rows cols)
   \<subseteq> set (placedPieces subparts gridResult r h rows cols)"
  unfolding placedPieces_def set_append by blast

lemma OVERLAP_THICKNESS_pos: "0 < OVERLAP_THICKNESS"
  by (simp add: OVERLAP_THICKNESS_def)

text \<open>
  C3, as the code has it. For a side-wall sub-part trimmed to the origin with a positive
  length along X and a positive height, and \<open>2 \<times> cornerRadius \<le> height\<close>: both walls
  scaled along Y, the left one and the right one, come out with the Z extent
  \<open>height - 2 \<times> cornerRadius + OVERLAP_THICKNESS\<close> (the right wall is a clone of the left
  wall taken after the scaling, rotated by a half turn), while the near and the far wall
  come out with \<open>height - 2 \<times> cornerRadius\<close>. The left and the right wall are among the
  placed pieces. The divisors of the scale factors are positive: those of the near wall
  are the assumed X and Z maxima, those of the left wall are the Y and Z maxima of the
  side wall after its quarter turn.
\<close>

theorem side_wall_heights:
  assumes "bbMin (sideWall subparts) = (0, 0, 0)"
    and "0 < vx (bbMax (sideWall subparts))" and "0 < vz (bbMax (sideWall subparts))"
    and "2 * r \<le> h"
  shows "zExtent (leftSideWall subparts gridResult r h rows) = h - 2 * r + OVERLAP_THICKNESS
         \<and> zExtent (rightSideWall subparts gridResult r h rows cols)
             = h - 2 * r + OVERLAP_THICKNESS
         \<and> zExtent (nearSideWall subparts gridResult r h cols) = h - 2 * r
         \<and> zExtent (farSideWall subparts gridResult r h rows cols) = h - 2 * r
         \<and> (SideWall, leftSideWall subparts gridResult r h rows)
             \<in> set (placedPieces subparts gridResult r h rows cols)
         \<and> (SideWall, rightSideWall subparts gridResult r h rows cols)
             \<in> set (placedPieces subparts gridResult r h rows cols)
         \<and> 0 < vy (bbMax (rotateZWithTrim (- pi / 2) (sideWall subparts)))
         \<and> 0 < vz (bbMax (rotateZWithTrim (- pi / 2) (sideWall subparts)))"
proof -
  have z0: "vz (bbMin (sideWall subparts)) = 0" and x0: "vx (bbMin (sideWall subparts)) = 0"
    using assms(1) by (simp_all add: vz_triple vx_triple)
  have e: "0 < zExtent (sideWall subparts)"
    using z0 assms(3) by (simp add: zExtent_def)
  have w: "0 < xExtent (sideWall subparts)"
    using x0 assms(2) by (simp add: xExtent_def)
  have H: "0 \<le> h - 2 * r + OVERLAP_THICKNESS" and H': "0 \<le> h - 2 * r"
    using assms(4) OVERLAP_THICKNESS_pos by simp_all
  have left: "zExtent (leftSideWall subparts gridResult r h rows)
                = h - 2 * r + OVERLAP_THICKNESS"
    using e H by (rule zExtent_leftSideWall)
  have near: "zExtent (nearSideWall subparts gridResult r h cols) = h - 2 * r"
    using z0 assms(3) H' by (rule zExtent_nearSideWall)
  have placed: "(SideWall, leftSideWall subparts gridResult r h rows)
                  \<in> set (placedPieces subparts gridResult r h rows cols)"
    "(SideWall, rightSideWall subparts gridResult r h rows cols)
                  \<in> set (placedPieces subparts gridResult r h rows cols)"
    using sidePieces_placed [of subparts gridResult r h rows cols]
    by (simp_all add: sidePieces_def)
  have d: "vy (bbMax (rotateZWithTrim (- pi / 2) (sideWall subparts)))
             = xExtent (sideWall subparts)"
    "vz (bbMax (rotateZWithTrim (- pi / 2) (sideWall subparts)))
             = zExtent (sideWall subparts)"
    using left_wall_divisors [of "sideWall subparts"] by simp_all
  show ?thesis
    unfolding d zExtent_rightSideWall zExtent_farSideWall
    using left near placed e w by simp
qed

lemma wedge_box: "bbMin wedge = (0, 0, 0)" "bbMax wedge = (1, 1, 1)"
  by (simp_all add: bbMin_def bbMax_def boundingBox_def wedge_def vx_triple vy_triple vz_triple)

lemma wallPanel_box: "bbMin wallPanel = (0, 0, 0)" "bbMax wallPanel = (2, 1, 2)"
  by (simp_all add: bbMin_def bbMax_def boundingBox_def wallPanel_def vx_triple vy_triple
        vz_triple)

lemma sideWall_wallParts: "sideWall wallParts = wallPanel"
  by (simp add: wallParts_def)

theorem side_wall_heights_witness:
  "zExtent (leftSideWall wallParts wideCell 1 10 1) = 10 - 2 * 1 + OVERLAP_THICKNESS
   \<and> zExtent (rightSideWall wallParts wideCell 1 10 1 1) = 10 - 2 * 1 + OVERLAP_THICKNESS
   \<and> zExtent (nearSideWall wallParts wideCell 1 10 1) = 10 - 2 * 1
   \<and> zExtent (farSideWall wallParts wideCell 1 10 1 1) = 10 - 2 * 1
   \<and> (SideWall, leftSideWall wallParts wideCell 1 10 1)
       \<in> set (placedPieces wallParts wideCell 1 10 1 1)
   \<and> (SideWall, rightSideWall wallParts wideCell 1 10 1 1)
       \<in> set (placedPieces wallParts wideCell 1 10 1 1)
   \<and> 0 < vy (bbMax (rotateZWithTrim (- pi / 2) (sideWall wallParts)))
   \<and> 0 < vz (bbMax (rotateZWithTrim (- pi / 2) (sideWall wallParts)))"
  using side_wall_heights [of wallParts 1 10 wideCell 1 1]
  by (simp add: sideWall_wallParts wallPanel_box vx_triple vz_triple)

text \<open>
  The claim that one of the two walls along Y has the bump and its twin has not fails on
  the sample panel in a 4 by 4 cell with height 10 and corner radius 1, where every
  divisor is 2: both walls are 8.01 high.
\<close>

theorem right_side_wall_bump_counterexample:
  "bbMin (sideWall wallParts) = (0, 0, 0)
   \<and> bbMax (sideWall wallParts) = (2, 1, 2)
   \<and> vy (bbMax (rotateZWithTrim (- pi / 2) (sideWall wallParts))) = 2
   \<and> vz (bbMax (rotateZWithTrim (- pi / 2) (sideWall wallParts))) = 2
   \<and> zExtent (leftSideWall wallParts wideCell 1 10 1) = 10 - 2 * 1 + OVERLAP_THICKNESS
   \<and> zExtent (rightSideWall wallParts wideCell 1 10 1 1) = 10 - 2 * 1 + OVERLAP_THICKNESS
   \<and> zExtent (leftSideWall wallParts wideCell 1 10 1) \<noteq> 10 - 2 * 1
   \<and> zExtent (rightSideWall wallParts wideCell 1 10 1 1) \<noteq> 10 - 2 * 1"
proof -
  have box: "bbMin (sideWall wallParts) = (0, 0, 0)" "bbMax (sideWall wallParts) = (2, 1, 2)"
    by (simp_all add: sideWall_wallParts wallPanel_box)
  have ext: "zExtent (sideWall wallParts) = 2" "xExtent (sideWall wallParts) = 2"
    by (simp_all add: zExtent_def xExtent_def box vx_triple vz_triple)
  then have "zExtent (leftSideWall wallParts wideCell 1 10 1)
               = 10 - 2 * 1 + OVERLAP_THICKNESS"
    using zExtent_leftSideWall [of wallParts 10 1 wideCell 1] OVERLAP_THICKNESS_pos by simp
  moreover have "vy (bbMax (rotateZWithTrim (- pi / 2) (sideWall wallParts))) = 2"
    "vz (bbMax (rotateZWithTrim (- pi / 2) (sideWall wallParts))) = 2"
    using left_wall_divisors [of "sideWall wallParts"] ext by simp_all
  ultimately show ?thesis
    unfolding zExtent_rightSideWall
    using OVERLAP_THICKNESS_pos box by simp
qed

section \<open>Cell extraction\<close>

text \<open>
  C5. For every mesh and every \<open>(n, m)\<close> with \<open>n < 2\<close> or \<open>m < 2\<close>, \<open>cutToGrid\<close> throws the
  invalid-grid-size error, and the mesh it was given is as it was: nothing was translated
  or cut. The pipeline called with such input grids ends with this error.
\<close>

theorem cutToGrid_rejects_small_grids:
  assumes "n < 2 \<or> m < 2"
  shows "cutToGrid e baseGeom n m = (baseGeom, Inl InvalidGridSize)
         \<and> (inputGrids options = (n, m)
              \<longrightarrow> Gridifier e debugDir input options = Some (Inl InvalidGridSize))"
  using assms by (simp add: cutToGrid_def Gridifier_def)

theorem cutToGrid_rejects_small_grids_witness:
  "cutToGrid plainExt wedge 1 3 = (wedge, Inl InvalidGridSize)
   \<and> Gridifier plainExt False [] (sampleOptions\<lparr>inputGrids := (1, 3)\<rparr>)
       = Some (Inl InvalidGridSize)"
  using cutToGrid_rejects_small_grids
          [of 1 3 plainExt wedge "sampleOptions\<lparr>inputGrids := (1, 3)\<rparr>" False "[]"]
  by simp

text \<open>
  C6. For every mesh with at least one vertex that passes the validation, and every
  \<open>(n, m)\<close> with \<open>n \<ge> 2\<close> and \<open>m \<ge> 2\<close>, \<open>cutToGrid\<close> returns, and the sizes it returns are
  the X extent of the mesh's bounding box over \<open>n\<close>, the Y extent over \<open>m\<close>, and the Z extent.
\<close>

theorem cutToGrid_sizes:
  assumes "position baseGeom \<noteq> []" and "2 \<le> n" and "2 \<le> m"
    and "\<not> nanDefect e (trimBufferGeometryToOrigin baseGeom)"
  shows "\<exists>cell. snd (cutToGrid e baseGeom n m) = Inr cell
           \<and> sizeX cell = xExtent baseGeom / n
           \<and> sizeY cell = yExtent baseGeom / m
           \<and> sizeZ cell = zExtent baseGeom"
proof -
  let ?t = "trimBufferGeometryToOrigin baseGeom"
  have x: "vx (bbMax ?t) - vx (bbMin ?t) = xExtent baseGeom"
    using xExtent_trim [of baseGeom] by (simp add: xExtent_def)
  have y: "vy (bbMax ?t) - vy (bbMin ?t) = yExtent baseGeom"
    using yExtent_trim [of baseGeom] by (simp add: yExtent_def)
  have z: "vz (bbMax ?t) - vz (bbMin ?t) = zExtent baseGeom"
    using zExtent_trim [of baseGeom] by (simp add: zExtent_def)
  show ?thesis
    using assms(2-4) by (simp add: cutToGrid_def validateGeometry_def Let_def x y z)
qed

theorem cutToGrid_sizes_witness:
  "\<exists>cell. snd (cutToGrid plainExt wedge 4 2) = Inr cell
     \<and> sizeX cell = xExtent wedge / 4
     \<and> sizeY cell = yExtent wedge / 2
     \<and> sizeZ cell = zExtent wedge"
  using cutToGrid_sizes [of wedge 4 2 plainExt]
  by (simp add: wedge_def plainExt_def)

section \<open>Rescaling to the output grid size\<close>

lemma wedge_trim: "trimBufferGeometryToOrigin wedge = wedge"
  by (simp add: trimBufferGeometryToOrigin_def boundingBox_def wedge_def translate_def
        vx_triple vy_triple vz_triple)

lemma wedge_brush: "prepareBrush wedge = wedge"
proof -
  have "computeVertexNormals wedge = wedge"
    by (simp add: computeVertexNormals_def wedge_def)
  then show ?thesis
    by (simp add: prepareBrush_def Let_def wedge_trim) (simp add: wedge_def)
qed

lemma wedge_cut: "cutByMeshBox plainExt wedge box = wedge"
proof -
  have "csgIntersection plainExt wedge box = wedge"
    by (simp add: plainExt_def)
  then show ?thesis
    by (simp add: cutByMeshBox_def wedge_brush)
       (simp add: mergeVertices_def deleteNormal_def computeVertexNormals_def plainExt_def
          wedge_def)
qed

lemma sample_extraction:
  "snd (cutToGrid plainExt (loadBase plainExt False input) 4 2) = Inr sampleExtracted"
proof -
  have "loadBase plainExt False input = wedge"
    by (simp add: loadBase_def plainExt_def)
  moreover have "\<not> nanDefect plainExt wedge"
    by (simp add: plainExt_def)
  ultimately show ?thesis
    by (simp add: cutToGrid_def validateGeometry_def Let_def wedge_trim wedge_cut wedge_box
          sampleExtracted_def vx_triple vy_triple vz_triple)
qed

text \<open>
  C7. When \<open>outputGridSize\<close> is given and the extracted cell has a non-zero \<open>sizeX\<close> (and
  the meshes pass the validations), the cell is scaled by \<open>s = outputGridSize / sizeX\<close> on
  all three axes and trimmed, its \<open>sizeX\<close> becomes \<open>outputGridSize\<close>, its \<open>sizeY\<close> and
  \<open>sizeZ\<close> are multiplied by \<open>s\<close>, and the pipeline decomposes this scaled cell with the
  corner radius \<open>inputCornerRadius \<times> s\<close>.
\<close>

theorem rescale_before_decomposition:
  assumes "outputGridSize options = Some target"
    and "sizeX cell \<noteq> 0"
    and "\<not> nanDefect e (trimBufferGeometryToOrigin
            (scale (target / sizeX cell) (target / sizeX cell) (target / sizeX cell)
               (geometry cell)))"
    and "snd (cutToGrid e (loadBase e debugDir input)
                (fst (inputGrids options)) (snd (inputGrids options))) = Inr cell"
    and "\<not> nanDefect e (geometry cell)"
  shows "let s = target / sizeX cell;
             scaled = \<lparr>geometry = trimBufferGeometryToOrigin (scale s s s (geometry cell)),
                       sizeX = target, sizeY = sizeY cell * s, sizeZ = sizeZ cell * s\<rparr>
         in rescale e cell (inputCornerRadius options) (outputGridSize options)
              = Inr (scaled, inputCornerRadius options * s)
            \<and> Gridifier e debugDir input options
              = (case cutToParts e (geometry scaled) (inputCornerRadius options * s) of
                   Inl err \<Rightarrow> Some (Inl err)
                 | Inr subparts \<Rightarrow>
                     (case reassemble e subparts scaled (inputCornerRadius options * s)
                             (height options) (fst (outputGrids options))
                             (snd (outputGrids options)) (dividerThickness options)
                             (unionAll options) of
                        None \<Rightarrow> None
                      | Some (Inl err) \<Rightarrow> Some (Inl err)
                      | Some (Inr merged) \<Rightarrow> Some (Inr (stlExport e merged))))"
proof -
  have r: "rescale e cell (inputCornerRadius options) (outputGridSize options)
             = Inr (\<lparr>geometry = trimBufferGeometryToOrigin
                         (scale (target / sizeX cell) (target / sizeX cell)
                            (target / sizeX cell) (geometry cell)),
                      sizeX = target,
                      sizeY = sizeY cell * (target / sizeX cell),
                      sizeZ = sizeZ cell * (target / sizeX cell)\<rparr>,
                    inputCornerRadius options * (target / sizeX cell))"
  proof -
    have "sizeX cell * (target / sizeX cell) = target"
      using assms(2) by simp
    then show ?thesis
      using assms(1,3)
      by (simp add: rescale_def validateGeometry_def Let_def del: times_divide_eq_right)
  qed
  show ?thesis
    unfolding Let_def using r assms(4,5)
    by (simp add: Gridifier_def Let_def validateGeometry_def decomposeAndReassemble_def
          del: times_divide_eq_right)
qed

theorem rescale_before_decomposition_witness:
  "let s = 2 / sizeX sampleExtracted;
       scaled = \<lparr>geometry = trimBufferGeometryToOrigin (scale s s s (geometry sampleExtracted)),
                 sizeX = 2, sizeY = sizeY sampleExtracted * s, sizeZ = sizeZ sampleExtracted * s\<rparr>
   in rescale plainExt sampleExtracted (inputCornerRadius sampleOptions)
          (outputGridSize sampleOptions)
        = Inr (scaled, inputCornerRadius sampleOptions * s)
      \<and> Gridifier plainExt False [] sampleOptions
        = (case cutToParts plainExt (geometry scaled) (inputCornerRadius sampleOptions * s) of
             Inl err \<Rightarrow> Some (Inl err)
           | Inr subparts \<Rightarrow>
               (case reassemble plainExt subparts scaled (inputCornerRadius sampleOptions * s)
                       (height sampleOptions) (fst (outputGrids sampleOptions))
                       (snd (outputGrids sampleOptions)) (dividerThickness sampleOptions)
                       (unionAll sampleOptions) of
                  None \<Rightarrow> None
                | Some (Inl err) \<Rightarrow> Some (Inl err)
                | Some (Inr merged) \<Rightarrow> Some (Inr (stlExport plainExt merged))))"
proof -
  have a: "outputGridSize sampleOptions = Some 2"
    by (simp add: sampleOptions_def)
  have b: "sizeX sampleExtracted \<noteq> 0"
    by (simp add: sampleExtracted_def)
  have c: "\<not> nanDefect plainExt g" for g
    by (simp add: plainExt_def)
  have d: "snd (cutToGrid plainExt (loadBase plainExt False [])
                  (fst (inputGrids sampleOptions)) (snd (inputGrids sampleOptions)))
             = Inr sampleExtracted"
    using sample_extraction [of "[]"] by (simp add: sampleOptions_def)
  show ?thesis
    using rescale_before_decomposition [OF a b c d c] .
qed

section \<open>The grid-size parser\<close>

lemma split_without_separator: "sep \<notin> set s \<Longrightarrow> split sep s = [s]"
  by (induction s) auto

text \<open>
  C4, where the code departs from it. A string without an \<open>x\<close> that \<open>Number\<close> maps to \<open>NaN\<close>,
  such as a non-numeric one, is not rejected: \<open>parseGridSize\<close> returns the pair
  \<open>(NaN, undefined)\<close>, since \<open>NaN < 1\<close> and \<open>undefined < 1\<close> are both false.
\<close>

theorem parseGridSize_accepts_NaN:
  assumes "CHR ''x'' \<notin> set input" and "Number input = NaN"
  shows "parseGridSize Number input = Inr (Some NaN, None)"
  using assms by (simp add: parseGridSize_def split_without_separator)

theorem parseGridSize_accepts_NaN_witness:
  "parseGridSize sampleNumber ''abc'' = Inr (Some NaN, None)"
  using parseGridSize_accepts_NaN [of "''abc''" sampleNumber]
  by (simp add: sampleNumber_def)

lemma parseGridSize_samples:
  "parseGridSize sampleNumber ''4x2'' = Inr (Some (Num 4), Some (Num 2))"
  "parseGridSize sampleNumber ''0x2'' = Inl InvalidGridSize"
  by (simp_all add: parseGridSize_def sampleNumber_def)

section \<open>Mesh repair\<close>

lemma fixNonManifoldGeometry_returns_input:
  "fixNonManifoldGeometry e g = Some r \<Longrightarrow> r = deleteNormal g"
  by (auto simp: fixNonManifoldGeometry_def split: option.splits)

lemma faces_flatten: "faces (flatten fs) = fs"
  by (induction fs) (auto simp: flatten_def)

lemma length_uniqueFacesLoop:
  "length (uniqueFacesLoop seen fs) = card (faceKey ` set fs - seen)"
proof (induction fs arbitrary: seen)
  case Nil
  then show ?case by simp
next
  case (Cons f fs)
  show ?case
  proof (cases "faceKey f \<in> seen")
    case True
    then have "faceKey ` set (f # fs) - seen = faceKey ` set fs - seen"
      by auto
    with True show ?thesis
      by (simp add: Cons.IH)
  next
    case False
    then have "faceKey ` set (f # fs) - seen
                 = insert (faceKey f) (faceKey ` set fs - insert (faceKey f) seen)"
      by auto
    with False show ?thesis
      by (simp add: Cons.IH)
  qed
qed

lemma triangleCount_removeDuplicateFaces:
  "index g = Some ix \<Longrightarrow>
   triangleCount (removeDuplicateFaces g) = card (faceKey ` set (faces ix))"
  by (simp add: removeDuplicateFaces_def triangleCount_def faces_flatten length_uniqueFacesLoop)


lemma weld_plain:
  "weld plainExt t g = (position g, case index g of None \<Rightarrow> [0..<length (position g)] | Some ix \<Rightarrow> ix)"
  by (simp add: plainExt_def)

lemma dup_doubled:
  "removeDuplicateFaces doubledTriangle = doubledTriangle\<lparr>index := Some [0, 1, 2]\<rparr>"
  by (simp add: removeDuplicateFaces_def doubledTriangle_def flatten_def)

lemma area_sample: "triangleArea 0 0 0 1 0 0 0 1 0 = 1 / 2"
  by (simp add: triangleArea_def)

lemma repairPass_doubledTriangle:
  "repairPass plainExt doubledTriangle
   = \<lparr>position = [(0, 0, 0), (1, 0, 0), (0, 1, 0)], index = Some [0, 1, 2], hasNormal = True\<rparr>"
proof -
  have a: "mergeVertices plainExt t doubledTriangle = doubledTriangle" for t
    by (simp add: mergeVertices_def weld_plain doubledTriangle_def)
  have b: "deleteNormal doubledTriangle = doubledTriangle"
    by (simp add: deleteNormal_def doubledTriangle_def)
  have keep: "keepTriangle [(0, 0, 0), (1, 0, 0), (0, 1, 0)] (0, 1, 2)"
    by (simp add: keepTriangle_def vx_triple vy_triple vz_triple area_sample
          MIN_TRIANGLE_AREA_def)
  have c: "removeDegenerateTriangles plainExt (doubledTriangle\<lparr>index := Some [0, 1, 2]\<rparr>)
           = \<lparr>position = [(0, 0, 0), (1, 0, 0), (0, 1, 0)], index = Some [0, 1, 2],
              hasNormal = True\<rparr>"
    using keep
    by (simp add: removeDegenerateTriangles_def compactTriangles_def Let_def doubledTriangle_def
          flatten_def addUsed_def oldToNewIndex_def computeVertexNormals_def)
  show ?thesis
    unfolding repairPass_def b a dup_doubled c
    by (simp add: mergeVertices_def weld_plain computeVertexNormals_def)
qed

lemma repairLoop_doubledTriangle:
  "repairLoop plainExt doubledTriangle
   = Some \<lparr>position = [(0, 0, 0), (1, 0, 0), (0, 1, 0)], index = Some [0, 1, 2],
           hasNormal = True\<rparr>"
  by (subst repairLoop.simps) (simp add: repairPass_doubledTriangle, simp add: doubledTriangle_def)

text \<open>
  C2, where the code departs from it. On one triangle listed twice the repair loop ends
  after one pass with a mesh of one triangle, but \<open>fixNonManifoldGeometry\<close> returns the mesh
  it was given, which still has the duplicate triangle.
\<close>

theorem fixNonManifoldGeometry_keeps_duplicate:
  "repairLoop plainExt doubledTriangle
     = Some \<lparr>position = [(0, 0, 0), (1, 0, 0), (0, 1, 0)], index = Some [0, 1, 2],
             hasNormal = True\<rparr>
   \<and> fixNonManifoldGeometry plainExt doubledTriangle = Some doubledTriangle
   \<and> index doubledTriangle = Some [0, 1, 2, 0, 1, 2]
   \<and> hasDuplicateFaces doubledTriangle"
proof -
  have "deleteNormal doubledTriangle = doubledTriangle"
    by (simp add: deleteNormal_def doubledTriangle_def)
  then have "fixNonManifoldGeometry plainExt doubledTriangle = Some doubledTriangle"
    by (simp add: fixNonManifoldGeometry_def repairLoop_doubledTriangle)
  moreover have "hasDuplicateFaces doubledTriangle"
    by (simp add: hasDuplicateFaces_def doubledTriangle_def)
  moreover have "index doubledTriangle = Some [0, 1, 2, 0, 1, 2]"
    by (simp add: doubledTriangle_def)
  ultimately show ?thesis
    using repairLoop_doubledTriangle by simp
qed


lemma position_mergeVertices: "position (mergeVertices e t g) = fst (weld e t g)"
  by (simp add: mergeVertices_def)

lemma position_removeDuplicateFaces: "position (removeDuplicateFaces g) = position g"
  by (simp add: removeDuplicateFaces_def split: option.split)

lemma set_foldl_addUsed: "set (foldl addUsed acc xs) = set acc \<union> set xs"
  by (induction xs arbitrary: acc) (auto simp: addUsed_def)

lemma distinct_foldl_addUsed: "distinct acc \<Longrightarrow> distinct (foldl addUsed acc xs)"
  by (induction xs arbitrary: acc) (auto simp: addUsed_def)

lemma kept_in_range:
  "set (flatten (filter (keepTriangle ps) fs)) \<subseteq> {..<length ps}"
  by (induction fs) (auto simp: flatten_def keepTriangle_def)

lemma length_compactTriangles:
  "length (position (compactTriangles g ps ix)) \<le> length ps"
proof -
  let ?used = "foldl addUsed [] (flatten (filter (keepTriangle ps) (faces ix)))"
  have "distinct ?used"
    by (simp add: distinct_foldl_addUsed)
  then have "length ?used = card (set ?used)"
    by (simp add: distinct_card)
  also have "\<dots> \<le> card {..<length ps}"
    using kept_in_range [of ps "faces ix"] by (intro card_mono) (simp_all add: set_foldl_addUsed)
  finally show ?thesis
    by (simp add: compactTriangles_def Let_def computeVertexNormals_def)
qed

lemma length_repairPass:
  assumes "\<And>t k. length (fst (weld e t k)) \<le> length (position k)"
  shows "length (position (repairPass e g)) \<le> length (position g)"
proof -
  let ?a = "mergeVertices e MERGE_VERTICES_TOLERANCE (deleteNormal g)"
  let ?b = "removeDuplicateFaces ?a"
  let ?c = "removeDegenerateTriangles e ?b"
  have a: "length (position ?a) \<le> length (position g)"
    using assms [of MERGE_VERTICES_TOLERANCE "deleteNormal g"]
    by (simp add: position_mergeVertices deleteNormal_def)
  have c: "length (position ?c) \<le> length (position ?b)"
  proof (cases "index ?b")
    case None
    then show ?thesis
      using length_compactTriangles [of ?b "fst (weld e (1 / 10000) ?b)"
                                        "snd (weld e (1 / 10000) ?b)"]
        assms [of "1 / 10000" ?b]
      by (simp add: removeDegenerateTriangles_def)
  next
    case (Some ix)
    then show ?thesis
      using length_compactTriangles [of ?b "position ?b" ix]
      by (simp add: removeDegenerateTriangles_def)
  qed
  have "length (position (repairPass e g)) \<le> length (position ?c)"
    using assms [of MERGE_VERTICES_TOLERANCE ?c]
    by (simp add: repairPass_def position_mergeVertices computeVertexNormals_def)
  then show ?thesis
    using a c by (simp add: position_removeDuplicateFaces)
qed

lemma repairLoop_returns:
  assumes "\<And>t k. length (fst (weld e t k)) \<le> length (position k)"
  shows "\<exists>r. repairLoop e g = Some r"
proof (induction "length (position g)" arbitrary: g rule: less_induct)
  case less
  show ?case
  proof (cases "length (position (repairPass e g)) = length (position g)")
    case True
    then show ?thesis
      by (subst repairLoop.simps) simp
  next
    case False
    then have "length (position (repairPass e g)) < length (position g)"
      using length_repairPass [OF assms, of g] by simp
    then obtain r where "repairLoop e (repairPass e g) = Some r"
      using less by blast
    with False show ?thesis
      by (subst repairLoop.simps) simp
  qed
qed

lemma fixNonManifoldGeometry_returns:
  assumes "\<And>t k. length (fst (weld e t k)) \<le> length (position k)"
  shows "fixNonManifoldGeometry e g = Some (deleteNormal g)"
  using repairLoop_returns [OF assms, of g] by (auto simp: fixNonManifoldGeometry_def)

lemma triangleCount_deleteNormal: "triangleCount (deleteNormal g) = triangleCount g"
  by (simp add: triangleCount_def deleteNormal_def split: option.split)

text \<open>
  C9. For an indexed mesh and a permutation of its triangle list: duplicate-face removal
  leaves the same number of triangles on both; whenever the repair step returns on both,
  the meshes it returns have the same number of triangles; and with a welder that never
  adds vertices the repair step does return on both.
\<close>

theorem repair_count_order_independent:
  assumes "index g = Some ix" and "mset (faces ix') = mset (faces ix)"
  shows "triangleCount (removeDuplicateFaces (g\<lparr>index := Some ix'\<rparr>))
           = triangleCount (removeDuplicateFaces g)
         \<and> (\<forall>r r'. fixNonManifoldGeometry e g = Some r
               \<and> fixNonManifoldGeometry e (g\<lparr>index := Some ix'\<rparr>) = Some r'
               \<longrightarrow> triangleCount r' = triangleCount r)
         \<and> ((\<forall>t k. length (fst (weld e t k)) \<le> length (position k))
             \<longrightarrow> (\<exists>r r'. fixNonManifoldGeometry e g = Some r
                    \<and> fixNonManifoldGeometry e (g\<lparr>index := Some ix'\<rparr>) = Some r'
                    \<and> triangleCount r' = triangleCount r))"
proof -
  have same_set: "set (faces ix') = set (faces ix)"
    using assms(2) by (rule mset_eq_setD)
  have same_length: "length (faces ix') = length (faces ix)"
    using assms(2) by (rule mset_eq_length)
  have dup: "triangleCount (removeDuplicateFaces (g\<lparr>index := Some ix'\<rparr>))
               = triangleCount (removeDuplicateFaces g)"
    using assms(1) same_set
    by (simp add: triangleCount_removeDuplicateFaces [of _ ix]
          triangleCount_removeDuplicateFaces [of _ ix'])
  have input: "triangleCount (deleteNormal (g\<lparr>index := Some ix'\<rparr>))
                 = triangleCount (deleteNormal g)"
    unfolding triangleCount_deleteNormal
    using assms(1) same_length by (simp add: triangleCount_def)
  have partial: "triangleCount r' = triangleCount r"
    if "fixNonManifoldGeometry e g = Some r"
      and "fixNonManifoldGeometry e (g\<lparr>index := Some ix'\<rparr>) = Some r'" for r r'
    using that input by (auto dest!: fixNonManifoldGeometry_returns_input)
  have total: "\<exists>r r'. fixNonManifoldGeometry e g = Some r
                 \<and> fixNonManifoldGeometry e (g\<lparr>index := Some ix'\<rparr>) = Some r'
                 \<and> triangleCount r' = triangleCount r"
    if "\<forall>t k. length (fst (weld e t k)) \<le> length (position k)"
    using that input by (simp add: fixNonManifoldGeometry_returns)
  show ?thesis
    using dup partial total by blast
qed

theorem repair_count_order_independent_witness:
  "triangleCount (removeDuplicateFaces (fan\<lparr>index := Some [0, 2, 3, 2, 0, 1, 0, 1, 2]\<rparr>))
     = triangleCount (removeDuplicateFaces fan)
   \<and> (\<exists>r r'. fixNonManifoldGeometry plainExt fan = Some r
         \<and> fixNonManifoldGeometry plainExt (fan\<lparr>index := Some [0, 2, 3, 2, 0, 1, 0, 1, 2]\<rparr>)
             = Some r'
         \<and> triangleCount r' = triangleCount r)"
proof -
  have a: "index fan = Some [0, 1, 2, 0, 2, 3, 2, 0, 1]"
    by (simp add: fan_def)
  have b: "mset (faces [0, 2, 3, 2, 0, 1, 0, 1, 2]) = mset (faces [0, 1, 2, 0, 2, 3, 2, 0, 1])"
    by simp
  have c: "\<forall>t k. length (fst (weld plainExt t k)) \<le> length (position k)"
    by (simp add: weld_plain)
  show ?thesis
    using repair_count_order_independent [OF a b, of plainExt] c by blast
qed

end
